theory Spec2Isabelle
  imports Complex_Main
begin

section \<open>Floating-point values with a missing-value sentinel\<close>

text \<open>
  The pipeline stores every measurement as a float in which NaN marks a missing value.
  The model keeps that split: a value is either \<open>NaN\<close> or a finite number \<open>Fl x\<close>.
  Finite numbers are idealised as reals: the binary rounding of each float operation is
  not modelled, the NaN propagation and the NaN behaviour of comparisons are. Infinities
  are not represented.

  Functions keep their names from the source; a private helper loses its leading
  underscore, and a parameter or local variable that shares its name with a column of a
  table is renamed (\<open>years\<close> for \<open>years_between\<close>, \<open>sim\<close> and \<open>conf\<close> for
  \<open>similarity\<close> and \<open>confidence\<close>).
\<close>

datatype pyfloat = NaN | Fl real

fun isnan :: "pyfloat \<Rightarrow> bool" where
  "isnan NaN = True"
| "isnan (Fl x) = False"

text \<open>Arithmetic propagates NaN.\<close>

fun fl_map :: "(real \<Rightarrow> real) \<Rightarrow> pyfloat \<Rightarrow> pyfloat" where
  "fl_map f NaN = NaN"
| "fl_map f (Fl x) = Fl (f x)"

fun fl_sub :: "pyfloat \<Rightarrow> pyfloat \<Rightarrow> pyfloat" where
  "fl_sub (Fl a) (Fl b) = Fl (a - b)"
| "fl_sub a b = NaN"

fun fl_abs :: "pyfloat \<Rightarrow> pyfloat" where
  "fl_abs a = fl_map abs a"

text \<open>Every ordering comparison with a NaN operand is false.\<close>

fun fl_gt :: "pyfloat \<Rightarrow> real \<Rightarrow> bool" where
  "fl_gt NaN c = False"
| "fl_gt (Fl x) c = (c < x)"

fun fl_le :: "pyfloat \<Rightarrow> real \<Rightarrow> bool" where
  "fl_le NaN c = False"
| "fl_le (Fl x) c = (x \<le> c)"

text \<open>
  Python's \<open>max(0, x)\<close> returns its first argument unless a later one compares greater,
  so \<open>max(0, nan)\<close> is \<open>0\<close>.
\<close>

fun py_max0 :: "pyfloat \<Rightarrow> real" where
  "py_max0 NaN = 0"
| "py_max0 (Fl x) = (if 0 < x then x else 0)"

text \<open>
  \<open>round(x, ndigits)\<close> rounds to the nearest multiple of \<open>10 ^ -ndigits\<close>, a tie going
  to the even neighbour; \<open>round(nan, n)\<close> is \<open>nan\<close>.
\<close>

definition round_half_even :: "real \<Rightarrow> int" where
  "round_half_even x =
     (let f = \<lfloor>x\<rfloor>; d = x - of_int f
      in if d < 1 / 2 then f else if 1 / 2 < d then f + 1
         else if even f then f else f + 1)"

definition py_round :: "real \<Rightarrow> nat \<Rightarrow> real" where
  "py_round x ndigits = of_int (round_half_even (x * 10 ^ ndigits)) / 10 ^ ndigits"

fun fl_round :: "pyfloat \<Rightarrow> nat \<Rightarrow> pyfloat" where
  "fl_round NaN ndigits = NaN"
| "fl_round (Fl x) ndigits = Fl (py_round x ndigits)"

section \<open>Configuration constants (config.py)\<close>

definition DISTANCE_TOLERANCE_FT :: real where "DISTANCE_TOLERANCE_FT = 3"
definition CLOCK_TOLERANCE_HOURS :: real where "CLOCK_TOLERANCE_HOURS = 1"
definition WEIGHT_DISTANCE :: real where "WEIGHT_DISTANCE = 35 / 100"
definition WEIGHT_CLOCK :: real where "WEIGHT_CLOCK = 25 / 100"
definition WEIGHT_DEPTH :: real where "WEIGHT_DEPTH = 20 / 100"
definition WEIGHT_DIMENSIONS :: real where "WEIGHT_DIMENSIONS = 10 / 100"
definition WEIGHT_TYPE :: real where "WEIGHT_TYPE = 10 / 100"
definition HIGH_CONFIDENCE :: real where "HIGH_CONFIDENCE = 85 / 100"
definition MEDIUM_CONFIDENCE :: real where "MEDIUM_CONFIDENCE = 60 / 100"
definition LOW_CONFIDENCE :: real where "LOW_CONFIDENCE = 40 / 100"
definition MAX_PLAUSIBLE_GROWTH_RATE :: real where "MAX_PLAUSIBLE_GROWTH_RATE = 5"
definition WALL_LOSS_REPAIR_THRESHOLD :: real where "WALL_LOSS_REPAIR_THRESHOLD = 80"


definition COMPATIBLE_TYPES :: "string \<rightharpoonup> string list" where
  "COMPATIBLE_TYPES =
     [''Metal Loss'' \<mapsto> [''Metal Loss'', ''Cluster''],
      ''Cluster'' \<mapsto> [''Metal Loss'', ''Cluster''],
      ''Metal Loss Manufacturing'' \<mapsto> [''Metal Loss Manufacturing'', ''Seam Weld Manufacturing''],
      ''Seam Weld Manufacturing'' \<mapsto> [''Metal Loss Manufacturing'', ''Seam Weld Manufacturing''],
      ''Dent'' \<mapsto> [''Dent'', ''Seam Weld Dent''],
      ''Seam Weld Dent'' \<mapsto> [''Dent'', ''Seam Weld Dent''],
      ''Seam Weld Anomaly'' \<mapsto> [''Seam Weld Anomaly''],
      ''Girth Weld Anomaly'' \<mapsto> [''Girth Weld Anomaly'']]"

section \<open>Data model\<close>

text \<open>One feature row of a run, after ingestion and alignment.\<close>

record feature_row =
  joint_number :: pyfloat
  log_distance_ft :: pyfloat
  corrected_distance :: pyfloat
  event_type :: string
  depth_pct :: pyfloat
  length_in :: pyfloat
  width_in :: pyfloat
  clock_hours :: pyfloat
  id_od :: string
  wall_thickness_in :: pyfloat
  comments :: string
  source_row_idx :: nat
  run_year :: int
  is_anomaly :: bool
  is_girth_weld :: bool

text \<open>
  One row of the matches table. The five columns the growth scorer adds are optional:
  \<open>None\<close> is a table that does not have the column yet.
\<close>

record match_record =
  similarity :: real
  confidence :: real
  confidence_label :: string
  earlier_year :: int
  earlier_joint :: pyfloat
  earlier_distance :: pyfloat
  earlier_orig_distance :: pyfloat
  earlier_clock :: pyfloat
  earlier_depth_pct :: pyfloat
  earlier_length_in :: pyfloat
  earlier_width_in :: pyfloat
  earlier_event_type :: string
  earlier_id_od :: string
  earlier_comments :: string
  earlier_wall_thickness :: pyfloat
  earlier_row_idx :: nat
  later_year :: int
  later_joint :: pyfloat
  later_distance :: pyfloat
  later_orig_distance :: pyfloat
  later_clock :: pyfloat
  later_depth_pct :: pyfloat
  later_length_in :: pyfloat
  later_width_in :: pyfloat
  later_event_type :: string
  later_id_od :: string
  later_comments :: string
  later_wall_thickness :: pyfloat
  later_row_idx :: nat
  years_between :: real
  depth_growth_pct :: pyfloat
  depth_growth_rate :: pyfloat
  length_growth_in :: pyfloat
  length_growth_rate :: pyfloat
  width_growth_in :: pyfloat
  width_growth_rate :: pyfloat
  remaining_wall_pct :: "pyfloat option"
  remaining_life_years :: "pyfloat option"
  growth_class :: "string option"
  risk_score :: "pyfloat option"
  risk_category :: "string option"

section \<open>Growth scorer (growth.py)\<close>

text \<open>
  \<open>remaining_life\<close> rounds the quotient of two floats to one decimal. The quotient is in
  general not a multiple of 0.05, but where it is one the direction of the rounding follows
  the binary quotient and not the decimal one (0.45 as a float lies above 0.45, so
  4.5 / 10.0 rounds to 0.5 and not to the even 0.4). The model leaves that direction open:
  the rounding of the quotient is a parameter, \<open>round_tenth\<close>, of which only the contract
  \<open>rounds_to_tenth\<close> is used: the result is a multiple of 0.1 at most 0.05 away from its
  argument. \<open>half_even_tenth\<close>, rounding the exact quotient half to even, meets the contract
  and is the instance used on concrete rows; \<open>half_up_tenth\<close>, rounding it half up, meets
  the contract as well.
\<close>

type_synonym rounding = "real \<Rightarrow> real"

definition rounds_to_tenth :: "rounding \<Rightarrow> bool" where
  "rounds_to_tenth round_tenth \<longleftrightarrow>
     (\<forall>x. (\<exists>k::int. round_tenth x = of_int k / 10) \<and> \<bar>round_tenth x - x\<bar> \<le> 1 / 20)"

definition half_even_tenth :: rounding where
  "half_even_tenth x = py_round x 1"

definition half_up_tenth :: rounding where
  "half_up_tenth x = of_int \<lfloor>x * 10 + 1 / 2\<rfloor> / 10"

definition remaining_life :: "rounding \<Rightarrow> match_record \<Rightarrow> pyfloat" where
  "remaining_life round_tenth row =
     (let rate = depth_growth_rate row; current = later_depth_pct row
      in case (rate, current) of
           (Fl r, Fl c) \<Rightarrow>
             if r \<le> 0 then NaN
             else let remaining_capacity = WALL_LOSS_REPAIR_THRESHOLD - c
                  in if remaining_capacity \<le> 0 then Fl 0
                     else Fl (round_tenth (remaining_capacity / r))
         | _ \<Rightarrow> NaN)"

definition classify_growth :: "pyfloat \<Rightarrow> string" where
  "classify_growth rate =
     (case rate of
        NaN \<Rightarrow> ''Unknown''
      | Fl r \<Rightarrow>
          if r < 0 then ''Apparent Shrinkage''
          else if r = 0 then ''Stable''
          else if r \<le> 1 then ''Low''
          else if r \<le> 3 then ''Moderate''
          else if r \<le> MAX_PLAUSIBLE_GROWTH_RATE then ''High''
          else ''Severe'')"

text \<open>
  The risk score is never NaN: a missing depth and a missing or negative rate count as 0
  before the two components are added.
\<close>

definition compute_risk_score :: "match_record \<Rightarrow> real" where
  "compute_risk_score row =
     (let depth = (case later_depth_pct row of NaN \<Rightarrow> 0 | Fl d \<Rightarrow> d);
          rate = (case depth_growth_rate row of NaN \<Rightarrow> 0 | Fl r \<Rightarrow> if r < 0 then 0 else r);
          depth_score = min 50 (depth * 50 / WALL_LOSS_REPAIR_THRESHOLD);
          rate_score = min 50 (rate * 50 / MAX_PLAUSIBLE_GROWTH_RATE)
      in py_round (depth_score + rate_score) 1)"

definition classify_risk :: "pyfloat \<Rightarrow> string" where
  "classify_risk score =
     (case score of
        NaN \<Rightarrow> ''Unknown''
      | Fl s \<Rightarrow>
          if 70 \<le> s then ''Critical''
          else if 50 \<le> s then ''High''
          else if 30 \<le> s then ''Medium''
          else ''Low'')"

text \<open>
  \<open>calculate_growth_rates\<close> returns an empty table as it is and otherwise assigns the
  five columns one after the other, each from the table as it stands at that point.
\<close>

definition calculate_growth_rates :: "rounding \<Rightarrow> match_record list \<Rightarrow> match_record list" where
  "calculate_growth_rates round_tenth matches_df =
     (if matches_df = [] then matches_df
      else
        let df1 = map (\<lambda>r. r\<lparr>remaining_wall_pct := Some (fl_sub (Fl 100) (later_depth_pct r))\<rparr>) matches_df;
            df2 = map (\<lambda>r. r\<lparr>remaining_life_years := Some (remaining_life round_tenth r)\<rparr>) df1;
            df3 = map (\<lambda>r. r\<lparr>growth_class := Some (classify_growth (depth_growth_rate r))\<rparr>) df2;
            df4 = map (\<lambda>r. r\<lparr>risk_score := Some (Fl (compute_risk_score r))\<rparr>) df3;
            df5 = map (\<lambda>r. r\<lparr>risk_category := map_option classify_risk (risk_score r)\<rparr>) df4
        in df5)"

section \<open>Data ingestion (data_ingestion.py)\<close>

definition get_anomalies :: "feature_row list \<Rightarrow> feature_row list" where
  "get_anomalies df =
     filter (\<lambda>r. is_anomaly r \<and> \<not> isnan (depth_pct r) \<and> \<not> isnan (log_distance_ft r)) df"

section \<open>Anomaly matching (matching.py)\<close>

subsection \<open>Clock utilities\<close>

text \<open>Python's float \<open>%\<close> with a positive divisor: the result lies in \<open>[0, m)\<close>.\<close>

definition py_fmod :: "real \<Rightarrow> real \<Rightarrow> real" where
  "py_fmod x m = x - m * of_int \<lfloor>x / m\<rfloor>"

definition clock_distance :: "pyfloat \<Rightarrow> pyfloat \<Rightarrow> real" where
  "clock_distance h1 h2 =
     (case (h1, h2) of
        (Fl a, Fl b) \<Rightarrow> (let diff = py_fmod \<bar>a - b\<bar> 12 in min diff (12 - diff))
      | _ \<Rightarrow> 6)"

definition clock_to_trig :: "pyfloat \<Rightarrow> real \<times> real" where
  "clock_to_trig hours =
     (case hours of
        NaN \<Rightarrow> (0, 0)
      | Fl h \<Rightarrow> (let theta = h * 2 * pi / 12 in (cos theta, sin theta)))"

subsection \<open>Similarity scoring\<close>

definition safe_diff :: "pyfloat \<Rightarrow> pyfloat \<Rightarrow> real" where
  "safe_diff a b = (case (a, b) of (Fl x, Fl y) \<Rightarrow> \<bar>x - y\<bar> | _ \<Rightarrow> 15 / 10)"

definition compute_similarity :: "feature_row \<Rightarrow> feature_row \<Rightarrow> real \<Rightarrow> real" where
  "compute_similarity a_later a_earlier years =
     (let dist_diff = fl_abs (fl_sub (corrected_distance a_later) (corrected_distance a_earlier));
          s_dist = py_max0 (fl_map (\<lambda>d. 1 - d / DISTANCE_TOLERANCE_FT) dist_diff);
          clk_diff = clock_distance (clock_hours a_later) (clock_hours a_earlier);
          s_clock = max 0 (1 - clk_diff / (CLOCK_TOLERANCE_HOURS * 6));
          d_later = depth_pct a_later;
          d_earlier = depth_pct a_earlier;
          s_depth =
            (case (d_later, d_earlier) of
               (Fl dl, Fl de) \<Rightarrow>
                 (let depth_diff = dl - de
                  in if 0 \<le> depth_diff then max 0 (1 - depth_diff / 30)
                     else max 0 (1 - \<bar>depth_diff\<bar> / 10))
             | _ \<Rightarrow> 5 / 10);
          len_diff = safe_diff (length_in a_later) (length_in a_earlier);
          wid_diff = safe_diff (width_in a_later) (width_in a_earlier);
          s_dim = max 0 (1 - (len_diff + wid_diff) / 6);
          s_type = (if event_type a_later = event_type a_earlier then 1 else 7 / 10)
      in WEIGHT_DISTANCE * s_dist + WEIGHT_CLOCK * s_clock + WEIGHT_DEPTH * s_depth
           + WEIGHT_DIMENSIONS * s_dim + WEIGHT_TYPE * s_type)"

subsection \<open>Type compatibility\<close>

definition types_compatible :: "string \<Rightarrow> string \<Rightarrow> bool" where
  "types_compatible type_a type_b =
     (if type_a = type_b then True
      else (let compat_a = (case COMPATIBLE_TYPES type_a of None \<Rightarrow> [type_a] | Some c \<Rightarrow> c)
            in type_b \<in> set compat_a))"

subsection \<open>Confidence and match records\<close>

text \<open>\<open>int(x)\<close> truncates towards zero.\<close>

definition py_int :: "real \<Rightarrow> int" where
  "py_int x = (if 0 \<le> x then \<lfloor>x\<rfloor> else \<lceil>x\<rceil>)"

definition compute_confidence ::
  "real \<Rightarrow> nat \<Rightarrow> feature_row \<Rightarrow> feature_row \<Rightarrow> real \<Rightarrow> real" where
  "compute_confidence sim n_candidates a_later a_earlier years =
     (let f_sim = sim;
          f_unique =
            (if n_candidates \<le> 1 then 1
             else if n_candidates = 2 then 7 / 10
             else max (3 / 10) (1 - real n_candidates * (1 / 10)));
          f_plaus =
            (case (depth_pct a_later, depth_pct a_earlier) of
               (Fl d_l, Fl d_e) \<Rightarrow>
                 if 0 < years then
                   (let growth_rate = (d_l - d_e) / years
                    in if 0 \<le> growth_rate \<and> growth_rate \<le> MAX_PLAUSIBLE_GROWTH_RATE then 1
                       else if growth_rate < 0 then max 0 (5 / 10 + growth_rate / 10)
                       else max (2 / 10) (1 - (growth_rate - MAX_PLAUSIBLE_GROWTH_RATE) / 10))
                 else 5 / 10
             | _ \<Rightarrow> 5 / 10);
          f_joint =
            (case (joint_number a_later, joint_number a_earlier) of
               (Fl jn_l, Fl jn_e) \<Rightarrow> (if py_int jn_l = py_int jn_e then 1 else 6 / 10)
             | _ \<Rightarrow> 5 / 10)
      in py_round (40 / 100 * f_sim + 25 / 100 * f_unique + 20 / 100 * f_plaus
                   + 15 / 100 * f_joint) 4)"

definition classify_confidence :: "real \<Rightarrow> string" where
  "classify_confidence conf =
     (if HIGH_CONFIDENCE \<le> conf then ''HIGH''
      else if MEDIUM_CONFIDENCE \<le> conf then ''MEDIUM''
      else ''LOW'')"

definition safe_sub :: "pyfloat \<Rightarrow> pyfloat \<Rightarrow> pyfloat" where
  "safe_sub a b = (case (a, b) of (Fl x, Fl y) \<Rightarrow> Fl (x - y) | _ \<Rightarrow> NaN)"

datatype py_error = ZeroDivisionError | KeyError | IndexError | TypeError | ValueError

text \<open>
  An annualised rate \<open>growth / years_between if not isnan(growth) else nan\<close>: the
  division is between Python floats, so a zero divisor raises.
\<close>

definition annual_rate :: "pyfloat \<Rightarrow> real \<Rightarrow> py_error + pyfloat" where
  "annual_rate growth years =
     (case growth of
        NaN \<Rightarrow> Inr NaN
      | Fl g \<Rightarrow> if years = 0 then Inl ZeroDivisionError else Inr (Fl (g / years)))"

definition build_match_record ::
  "feature_row \<Rightarrow> feature_row \<Rightarrow> real \<Rightarrow> real \<Rightarrow> string \<Rightarrow> real \<Rightarrow> py_error + match_record" where
  "build_match_record a_later a_earlier sim conf conf_label years =
     (let depth_growth = safe_sub (depth_pct a_later) (depth_pct a_earlier);
          length_growth = safe_sub (length_in a_later) (length_in a_earlier);
          width_growth = safe_sub (width_in a_later) (width_in a_earlier)
      in case annual_rate depth_growth years of Inl e \<Rightarrow> Inl e | Inr depth_rate \<Rightarrow>
        (case annual_rate length_growth years of Inl e \<Rightarrow> Inl e | Inr length_rate \<Rightarrow>
        (case annual_rate width_growth years of Inl e \<Rightarrow> Inl e | Inr width_rate \<Rightarrow>
         Inr \<lparr>similarity = py_round sim 4,
              confidence = conf,
              confidence_label = conf_label,
              earlier_year = run_year a_earlier,
              earlier_joint = joint_number a_earlier,
              earlier_distance = fl_round (corrected_distance a_earlier) 2,
              earlier_orig_distance = fl_round (log_distance_ft a_earlier) 2,
              earlier_clock = fl_round (clock_hours a_earlier) 2,
              earlier_depth_pct = depth_pct a_earlier,
              earlier_length_in = length_in a_earlier,
              earlier_width_in = width_in a_earlier,
              earlier_event_type = event_type a_earlier,
              earlier_id_od = id_od a_earlier,
              earlier_comments = comments a_earlier,
              earlier_wall_thickness = wall_thickness_in a_earlier,
              earlier_row_idx = source_row_idx a_earlier,
              later_year = run_year a_later,
              later_joint = joint_number a_later,
              later_distance = fl_round (corrected_distance a_later) 2,
              later_orig_distance = fl_round (log_distance_ft a_later) 2,
              later_clock = fl_round (clock_hours a_later) 2,
              later_depth_pct = depth_pct a_later,
              later_length_in = length_in a_later,
              later_width_in = width_in a_later,
              later_event_type = event_type a_later,
              later_id_od = id_od a_later,
              later_comments = comments a_later,
              later_wall_thickness = wall_thickness_in a_later,
              later_row_idx = source_row_idx a_later,
              years_between = years,
              depth_growth_pct = fl_round depth_growth 2,
              depth_growth_rate = fl_round depth_rate 3,
              length_growth_in = fl_round length_growth 2,
              length_growth_rate = fl_round length_rate 3,
              width_growth_in = fl_round width_growth 2,
              width_growth_rate = fl_round width_rate 3,
              remaining_wall_pct = None,
              remaining_life_years = None,
              growth_class = None,
              risk_score = None,
              risk_category = None\<rparr>)))"

subsection \<open>Match statistics\<close>

text \<open>
  The statistics dictionary; \<open>None\<close> is a key the dictionary does not have. The keys
  \<open>new_anomalies\<close> and \<open>missing_anomalies\<close> are the fields \<open>stat_new_anomalies\<close> and
  \<open>stat_missing_anomalies\<close>.
\<close>

record match_stats =
  total_matches :: nat
  stat_new_anomalies :: "nat option"
  stat_missing_anomalies :: "nat option"
  high_confidence :: "nat option"
  medium_confidence :: "nat option"
  low_confidence :: "nat option"
  avg_similarity :: "real option"
  avg_confidence :: "real option"
  avg_depth_growth_rate :: "pyfloat option"
  negative_growth_count :: "nat option"
  high_growth_count :: "nat option"

definition mean :: "real list \<Rightarrow> real" where
  "mean xs = sum_list xs / real (length xs)"

text \<open>\<open>dropna\<close> on a float column.\<close>

fun dropna :: "pyfloat list \<Rightarrow> real list" where
  "dropna [] = []"
| "dropna (NaN # xs) = dropna xs"
| "dropna (Fl x # xs) = x # dropna xs"

definition compute_match_stats ::
  "match_record list \<Rightarrow> feature_row list \<Rightarrow> feature_row list \<Rightarrow> match_stats" where
  "compute_match_stats matches_df new_df missing_df =
     (let base = \<lparr>total_matches = length matches_df,
                   stat_new_anomalies = Some (length new_df),
                   stat_missing_anomalies = Some (length missing_df),
                   high_confidence = None, medium_confidence = None, low_confidence = None,
                   avg_similarity = None, avg_confidence = None,
                   avg_depth_growth_rate = None, negative_growth_count = None,
                   high_growth_count = None\<rparr>
      in if 0 < length matches_df then
           (let valid_rates = dropna (map depth_growth_rate matches_df)
            in base\<lparr>high_confidence :=
                       Some (length (filter (\<lambda>m. confidence_label m = ''HIGH'') matches_df)),
                     medium_confidence :=
                       Some (length (filter (\<lambda>m. confidence_label m = ''MEDIUM'') matches_df)),
                     low_confidence :=
                       Some (length (filter (\<lambda>m. confidence_label m = ''LOW'') matches_df)),
                     avg_similarity := Some (py_round (mean (map similarity matches_df)) 3),
                     avg_confidence := Some (py_round (mean (map confidence matches_df)) 3),
                     avg_depth_growth_rate :=
                       Some (if 0 < length valid_rates then Fl (py_round (mean valid_rates) 3)
                             else NaN),
                     negative_growth_count := Some (length (filter (\<lambda>r. r < 0) valid_rates)),
                     high_growth_count :=
                       Some (length (filter (\<lambda>r. MAX_PLAUSIBLE_GROWTH_RATE < r) valid_rates))\<rparr>)
         else base)"

subsection \<open>The two library calls\<close>

text \<open>
  \<open>match_anomalies\<close> calls two functions of the scientific library: a k-d tree built over
  the earlier run's search points and queried for the points within a radius, and the
  solver of the linear sum assignment problem. Both are parameters of the model. What the
  matcher relies on is stated as a contract for each: the query returns positions of the
  indexed points, and the solver returns row/column pairs inside the matrix in which no
  row and no column occurs twice.

  The k-d tree accepts finite coordinates only: its constructor raises \<open>ValueError\<close> when a
  coordinate of a point to index is NaN, and so does the radius query when a coordinate of
  the query point is. Of a search point only the distance can be NaN (the clock position
  of a missing clock is mapped to the pair 0, 0). \<open>KDTree\<close> and \<open>query_ball\<close> are the two
  calls with that check; the parameter \<open>query\<close> is the search itself, on finite points.
\<close>

type_synonym search_point = "pyfloat \<times> real \<times> real"
type_synonym kdtree_query = "search_point list \<Rightarrow> search_point \<Rightarrow> real \<Rightarrow> nat list"
type_synonym lsa_solver = "real list list \<Rightarrow> (nat \<times> nat) list"

definition finite_point :: "search_point \<Rightarrow> bool" where
  "finite_point p = (case p of (d, cos_c, sin_c) \<Rightarrow> \<not> isnan d)"

definition KDTree :: "search_point list \<Rightarrow> py_error + search_point list" where
  "KDTree points = (if list_all finite_point points then Inr points else Inl ValueError)"

definition query_ball ::
  "kdtree_query \<Rightarrow> search_point list \<Rightarrow> search_point \<Rightarrow> real \<Rightarrow> py_error + nat list" where
  "query_ball query tree x r = (if finite_point x then Inr (query tree x r) else Inl ValueError)"

definition kdtree_contract :: "kdtree_query \<Rightarrow> bool" where
  "kdtree_contract query \<longleftrightarrow> (\<forall>pts p r. \<forall>j \<in> set (query pts p r). j < length pts)"

definition rectangular :: "real list list \<Rightarrow> nat \<Rightarrow> nat \<Rightarrow> bool" where
  "rectangular C n m \<longleftrightarrow> length C = n \<and> (\<forall>i < n. length (C ! i) = m)"

definition lsa_contract :: "lsa_solver \<Rightarrow> bool" where
  "lsa_contract solver \<longleftrightarrow>
     (\<forall>C n m. rectangular C n m \<longrightarrow>
        distinct (map fst (solver C)) \<and> distinct (map snd (solver C)) \<and>
        (\<forall>(i, j) \<in> set (solver C). i < n \<and> j < m))"

subsection \<open>Main matching pipeline\<close>

record match_result =
  matches :: "match_record list"
  new_anomalies :: "feature_row list"
  missing_anomalies :: "feature_row list"
  stats :: match_stats

definition build_search_point_single :: "feature_row \<Rightarrow> search_point" where
  "build_search_point_single row =
     (let (cos_c, sin_c) = clock_to_trig (clock_hours row)
      in (corrected_distance row, cos_c, sin_c))"

definition build_search_points :: "feature_row list \<Rightarrow> search_point list" where
  "build_search_points df = map build_search_point_single df"

definition LARGE_COST :: real where "LARGE_COST = 1000000"

definition search_radius :: real where
  "search_radius = max DISTANCE_TOLERANCE_FT 2"

text \<open>
  The body of the inner loop for one candidate \<open>j\<close> of the later anomaly \<open>i\<close>: the three
  gates, each a \<open>continue\<close>, then the cost and the candidate count. The candidates are
  positions in the earlier anomalies by the query's contract, and the solver's pairs are
  positions in the cost matrix by the solver's contract, so no index of the two loops is
  out of range.
\<close>

definition candidate_step ::
  "feature_row list \<Rightarrow> feature_row list \<Rightarrow> real \<Rightarrow> nat \<Rightarrow> nat
     \<Rightarrow> real list list \<times> nat list \<Rightarrow> real list list \<times> nat list" where
  "candidate_step anom_later anom_earlier years i j st =
     (let (cost_matrix, candidate_counts) = st;
          a_l = anom_later ! i;
          a_e = anom_earlier ! j;
          dist_diff = fl_abs (fl_sub (corrected_distance a_l) (corrected_distance a_e))
      in if fl_gt dist_diff DISTANCE_TOLERANCE_FT then st
         else
           (let clk_diff = clock_distance (clock_hours a_l) (clock_hours a_e)
            in if CLOCK_TOLERANCE_HOURS < clk_diff then st
               else if \<not> types_compatible (event_type a_l) (event_type a_e) then st
               else
                 (let sim = compute_similarity a_l a_e years
                  in (cost_matrix[i := (cost_matrix ! i)[j := 1 - sim]],
                      candidate_counts[i := candidate_counts ! i + 1]))))"

text \<open>
  The outer loop over the later anomalies, each with the candidates the tree returns; the
  loop ends with \<open>ValueError\<close> at the first later anomaly whose search point the query
  refuses.
\<close>

fun scan_rows ::
  "kdtree_query \<Rightarrow> feature_row list \<Rightarrow> feature_row list \<Rightarrow> real \<Rightarrow> search_point list
     \<Rightarrow> nat list \<Rightarrow> real list list \<times> nat list
     \<Rightarrow> py_error + real list list \<times> nat list" where
  "scan_rows query anom_later anom_earlier years tree [] st = Inr st"
| "scan_rows query anom_later anom_earlier years tree (i # rest) st =
     (let later_point = build_search_point_single (anom_later ! i)
      in case query_ball query tree later_point search_radius of
           Inl e \<Rightarrow> Inl e
         | Inr candidate_indices \<Rightarrow>
             scan_rows query anom_later anom_earlier years tree rest
               (fold (candidate_step anom_later anom_earlier years i) candidate_indices st))"

text \<open>
  The tree over the earlier anomalies, the initial cost matrix and candidate counts, and
  the scan of all later anomalies.
\<close>

definition scan_candidates ::
  "kdtree_query \<Rightarrow> feature_row list \<Rightarrow> feature_row list \<Rightarrow> real
     \<Rightarrow> py_error + real list list \<times> nat list" where
  "scan_candidates query anom_later anom_earlier years =
     (let n_later = length anom_later;
          n_earlier = length anom_earlier;
          earlier_points = build_search_points anom_earlier
      in case KDTree earlier_points of
           Inl e \<Rightarrow> Inl e
         | Inr tree \<Rightarrow>
             scan_rows query anom_later anom_earlier years tree [0..<n_later]
               (replicate n_later (replicate n_earlier LARGE_COST), replicate n_later 0))"

text \<open>
  The loop over the solver's pairs: a pair whose cost reaches \<open>1 - LOW_CONFIDENCE\<close> is
  skipped, every other pair becomes a match record and marks both anomalies as matched.
  \<open>make_match\<close> is the part of the loop body that builds the record of a pair that is
  not skipped.
\<close>

definition make_match ::
  "feature_row list \<Rightarrow> feature_row list \<Rightarrow> real \<Rightarrow> real list list \<Rightarrow> nat list
     \<Rightarrow> nat \<Rightarrow> nat \<Rightarrow> py_error + match_record" where
  "make_match anom_later anom_earlier years cost_matrix candidate_counts i j =
     (let sim = 1 - cost_matrix ! i ! j;
          a_l = anom_later ! i;
          a_e = anom_earlier ! j;
          conf = compute_confidence sim (candidate_counts ! i) a_l a_e years;
          conf_label = classify_confidence conf
      in build_match_record a_l a_e sim conf conf_label years)"

fun assign_loop ::
  "feature_row list \<Rightarrow> feature_row list \<Rightarrow> real \<Rightarrow> real list list \<Rightarrow> nat list
     \<Rightarrow> (nat \<times> nat) list \<Rightarrow> match_record list \<times> nat set \<times> nat set
     \<Rightarrow> py_error + (match_record list \<times> nat set \<times> nat set)" where
  "assign_loop anom_later anom_earlier years cost_matrix candidate_counts [] st = Inr st"
| "assign_loop anom_later anom_earlier years cost_matrix candidate_counts ((i, j) # rest)
     (acc, matched_later, matched_earlier) =
     (if 1 - LOW_CONFIDENCE \<le> cost_matrix ! i ! j then
        assign_loop anom_later anom_earlier years cost_matrix candidate_counts rest
          (acc, matched_later, matched_earlier)
      else
        (case make_match anom_later anom_earlier years cost_matrix candidate_counts i j of
           Inl e \<Rightarrow> Inl e
         | Inr match_rec \<Rightarrow>
             assign_loop anom_later anom_earlier years cost_matrix candidate_counts rest
               (acc @ [match_rec], insert i matched_later, insert j matched_earlier)))"

definition match_anomalies ::
  "kdtree_query \<Rightarrow> lsa_solver \<Rightarrow> feature_row list \<Rightarrow> feature_row list \<Rightarrow> real
     \<Rightarrow> py_error + match_result" where
  "match_anomalies query solver run_later run_earlier years =
     (let anom_later = get_anomalies run_later;
          anom_earlier = get_anomalies run_earlier;
          n_later = length anom_later;
          n_earlier = length anom_earlier
      in if n_later = 0 \<or> n_earlier = 0 then
           Inr \<lparr>matches = [],
                new_anomalies = anom_later,
                missing_anomalies = anom_earlier,
                stats = \<lparr>total_matches = 0,
                          stat_new_anomalies = None, stat_missing_anomalies = None,
                          high_confidence = None, medium_confidence = None,
                          low_confidence = None, avg_similarity = None,
                          avg_confidence = None, avg_depth_growth_rate = None,
                          negative_growth_count = None, high_growth_count = None\<rparr>\<rparr>
         else
           (case scan_candidates query anom_later anom_earlier years of
              Inl e \<Rightarrow> Inl e
            | Inr (cost_matrix, candidate_counts) \<Rightarrow>
                (let assignment = solver cost_matrix
                 in case assign_loop anom_later anom_earlier years cost_matrix
                           candidate_counts assignment ([], {}, {}) of
                      Inl e \<Rightarrow> Inl e
                    | Inr (matches_df, matched_later, matched_earlier) \<Rightarrow>
                        (let new_idx = filter (\<lambda>i. i \<notin> matched_later) [0..<n_later];
                             missing_idx = filter (\<lambda>i. i \<notin> matched_earlier) [0..<n_earlier];
                             new_df = map (\<lambda>i. anom_later ! i) new_idx;
                             missing_df = map (\<lambda>i. anom_earlier ! i) missing_idx
                         in Inr \<lparr>matches = matches_df,
                                 new_anomalies = new_df,
                                 missing_anomalies = missing_df,
                                 stats = compute_match_stats matches_df new_df missing_df\<rparr>))))"

subsection \<open>Reference implementations of the two library calls\<close>

text \<open>
  A direct implementation of each library call, for running the matcher on concrete
  inputs. The radius query scans all points and keeps those whose squared Euclidean
  distance to the query point is at most the squared radius; a point with a NaN
  coordinate is never within the radius.
\<close>

definition sq_dist :: "search_point \<Rightarrow> search_point \<Rightarrow> real option" where
  "sq_dist p q =
     (case (p, q) of
        ((Fl d1, c1, s1), (Fl d2, c2, s2)) \<Rightarrow> Some ((d1 - d2)\<^sup>2 + (c1 - c2)\<^sup>2 + (s1 - s2)\<^sup>2)
      | _ \<Rightarrow> None)"

definition query_ball_point :: kdtree_query where
  "query_ball_point pts p r =
     filter (\<lambda>j. case sq_dist (pts ! j) p of None \<Rightarrow> False | Some d \<Rightarrow> d \<le> r\<^sup>2)
       [0..<length pts]"

text \<open>
  The assignment solver enumerates every way to give each line of the shorter side of the
  matrix a line of its own on the longer side and returns the first one of least total
  cost, ordered by row.
\<close>

fun inj_maps :: "nat list \<Rightarrow> nat list \<Rightarrow> (nat \<times> nat) list list" where
  "inj_maps [] cols = [[]]"
| "inj_maps (i # rows) cols =
     concat (map (\<lambda>j. map (\<lambda>a. (i, j) # a) (inj_maps rows (remove1 j cols))) cols)"

definition assignment_cost :: "real list list \<Rightarrow> (nat \<times> nat) list \<Rightarrow> real" where
  "assignment_cost C a = sum_list (map (\<lambda>(i, j). C ! i ! j) a)"

definition linear_sum_assignment :: lsa_solver where
  "linear_sum_assignment C =
     (let n = length C;
          m = (case C of [] \<Rightarrow> 0 | row # _ \<Rightarrow> length row)
      in if n \<le> m then
           (case inj_maps [0..<n] [0..<m] of
              [] \<Rightarrow> []
            | a # as \<Rightarrow> arg_min_list (assignment_cost C) (a # as))
         else
           (case inj_maps [0..<m] [0..<n] of
              [] \<Rightarrow> []
            | a # as \<Rightarrow>
                sort_key fst
                  (map prod.swap
                     (arg_min_list (\<lambda>b. assignment_cost C (map prod.swap b)) (a # as)))))"

subsection \<open>Notions used to state the matcher's properties\<close>

text \<open>The three gates of the candidate loop, as one predicate on a pair of anomalies.\<close>

definition passes_gates :: "feature_row \<Rightarrow> feature_row \<Rightarrow> bool" where
  "passes_gates a_l a_e \<longleftrightarrow>
     \<not> fl_gt (fl_abs (fl_sub (corrected_distance a_l) (corrected_distance a_e)))
          DISTANCE_TOLERANCE_FT
     \<and> \<not> CLOCK_TOLERANCE_HOURS < clock_distance (clock_hours a_l) (clock_hours a_e)
     \<and> types_compatible (event_type a_l) (event_type a_e)"

text \<open>
  What the candidate loop maintains: the cost matrix keeps its shape, and each cell holds
  either the sentinel or the cost of a pair that passed the gates.
\<close>

definition cost_inv ::
  "feature_row list \<Rightarrow> feature_row list \<Rightarrow> real \<Rightarrow> real list list \<Rightarrow> bool" where
  "cost_inv anom_later anom_earlier years C \<longleftrightarrow>
     rectangular C (length anom_later) (length anom_earlier) \<and>
     (\<forall>i < length anom_later. \<forall>j < length anom_earlier.
        C ! i ! j = LARGE_COST \<or>
        (passes_gates (anom_later ! i) (anom_earlier ! j) \<and>
         C ! i ! j = 1 - compute_similarity (anom_later ! i) (anom_earlier ! j) years))"

text \<open>The solver's pairs that the assignment loop does not skip.\<close>

definition kept_pairs :: "real list list \<Rightarrow> (nat \<times> nat) list \<Rightarrow> (nat \<times> nat) list" where
  "kept_pairs C asg = filter (\<lambda>(i, j). \<not> 1 - LOW_CONFIDENCE \<le> C ! i ! j) asg"

text \<open>
  A run in which every row with a distance reading has a corrected distance, as the
  correction step leaves it when the values of the corrector are not NaN.
\<close>

definition aligned :: "feature_row list \<Rightarrow> bool" where
  "aligned run \<longleftrightarrow> (\<forall>r \<in> set run. \<not> isnan (log_distance_ft r) \<longrightarrow> \<not> isnan (corrected_distance r))"

section \<open>Multi-run chaining (multi_run.py)\<close>













section \<open>Alignment (alignment.py)\<close>

text \<open>
  The girth welds of a run: the rows flagged as girth weld that have a joint number and a
  distance, with the joint number cast to an integer, ordered by distance. The order among
  rows of equal distance is the table library's; nothing below depends on it.
\<close>

definition distance_key :: "feature_row \<Rightarrow> real" where
  "distance_key r = (case log_distance_ft r of NaN \<Rightarrow> 0 | Fl d \<Rightarrow> d)"

definition get_girth_welds :: "feature_row list \<Rightarrow> feature_row list" where
  "get_girth_welds df =
     (let gw = filter (\<lambda>r. is_girth_weld r \<and> \<not> isnan (joint_number r)
                            \<and> \<not> isnan (log_distance_ft r)) df;
          gw_int = map (\<lambda>r. r\<lparr>joint_number := fl_map (\<lambda>x. of_int (py_int x)) (joint_number r)\<rparr>) gw
      in sort_key distance_key gw_int)"

definition joint_key :: "feature_row \<Rightarrow> int" where
  "joint_key r = (case joint_number r of NaN \<Rightarrow> 0 | Fl x \<Rightarrow> py_int x)"

text \<open>\<open>drop_duplicates(keep="first")\<close> on the key of a keyed list.\<close>

fun drop_duplicates_from :: "'k list \<Rightarrow> ('k \<times> 'v) list \<Rightarrow> ('k \<times> 'v) list" where
  "drop_duplicates_from seen [] = []"
| "drop_duplicates_from seen (p # ps) =
     (if fst p \<in> set seen then drop_duplicates_from seen ps
      else p # drop_duplicates_from (fst p # seen) ps)"

definition drop_duplicates :: "('k \<times> 'v) list \<Rightarrow> ('k \<times> 'v) list" where
  "drop_duplicates ps = drop_duplicates_from [] ps"

text \<open>\<open>series.loc[key]\<close>: a missing key raises.\<close>

definition loc :: "(int \<times> real) list \<Rightarrow> int \<Rightarrow> py_error + real" where
  "loc series k = (case map_of series k of None \<Rightarrow> Inl KeyError | Some v \<Rightarrow> Inr v)"

text \<open>A loop that collects one value per element and stops at the first exception.\<close>

fun collect :: "('a \<Rightarrow> py_error + 'b) \<Rightarrow> 'a list \<Rightarrow> py_error + 'b list" where
  "collect f [] = Inr []"
| "collect f (x # xs) =
     (case f x of
        Inl e \<Rightarrow> Inl e
      | Inr y \<Rightarrow> (case collect f xs of Inl e \<Rightarrow> Inl e | Inr ys \<Rightarrow> Inr (y # ys)))"

text \<open>
  The girth-weld alignment table, by column: the common joint numbers, one distance column
  per run year and one delta column per pair of consecutive years. A table built from no
  records has no column at all.
\<close>

record gw_table =
  joint_number_col :: "int list"
  dist_cols :: "(int \<times> real list) list"
  delta_cols :: "((int \<times> int) \<times> real list) list"

definition common_joints_of :: "(int \<times> (int \<times> real) list) list \<Rightarrow> py_error + int list" where
  "common_joints_of gw_by_year =
     (case gw_by_year of
        [] \<Rightarrow> Inl TypeError
      | (y0, s0) # rest \<Rightarrow>
          Inr (sort (remdups
                 (filter (\<lambda>jn. \<forall>(y, s) \<in> set rest. jn \<in> fst ` set s) (map fst s0)))))"

definition dist_column ::
  "(int \<times> (int \<times> real) list) list \<Rightarrow> int list \<Rightarrow> int \<Rightarrow> py_error + (int \<times> real list)" where
  "dist_column gw_by_year common_joints year =
     (case map_of gw_by_year year of
        None \<Rightarrow> Inl KeyError
      | Some series \<Rightarrow>
          (case collect (loc series) common_joints of
             Inl e \<Rightarrow> Inl e
           | Inr col \<Rightarrow> Inr (year, col)))"

definition delta_column ::
  "(int \<times> real list) list \<Rightarrow> int \<times> int \<Rightarrow> py_error + ((int \<times> int) \<times> real list)" where
  "delta_column cols p =
     (case p of (y_prev, y_curr) \<Rightarrow>
        (case map_of cols y_curr of
           None \<Rightarrow> Inl KeyError
         | Some col_curr \<Rightarrow>
             (case map_of cols y_prev of
                None \<Rightarrow> Inl KeyError
              | Some col_prev \<Rightarrow>
                  Inr ((y_prev, y_curr), map2 (\<lambda>c p. c - p) col_curr col_prev))))"

text \<open>
  \<open>runs\<close> is a dictionary from year to run, given as the list of its items (the years
  are distinct). \<open>gw_by_year_of\<close> is the first loop and \<open>gw_series\<close> its body: per year,
  the distance of each joint's first girth weld.
\<close>

definition gw_series :: "feature_row list \<Rightarrow> (int \<times> real) list" where
  "gw_series df =
     (let gw = get_girth_welds df;
          gw_dedup = drop_duplicates (map (\<lambda>r. (joint_key r, distance_key r)) gw)
      in gw_dedup)"

definition gw_by_year_of ::
  "(int \<times> feature_row list) list \<Rightarrow> (int \<times> (int \<times> real) list) list" where
  "gw_by_year_of runs = map (\<lambda>(year, df). (year, gw_series df)) runs"

definition match_girth_welds :: "(int \<times> feature_row list) list \<Rightarrow> py_error + gw_table" where
  "match_girth_welds runs =
     (let gw_by_year = gw_by_year_of runs
      in case common_joints_of gw_by_year of
           Inl e \<Rightarrow> Inl e
         | Inr common_joints \<Rightarrow>
             (let years = sort (map fst gw_by_year)
              in case collect (dist_column gw_by_year common_joints) years of
                   Inl e \<Rightarrow> Inl e
                 | Inr cols \<Rightarrow>
                     (let result_cols = (if common_joints = [] then [] else cols)
                      in case collect (delta_column result_cols) (zip years (tl years)) of
                           Inl e \<Rightarrow> Inl e
                         | Inr deltas \<Rightarrow>
                             Inr \<lparr>joint_number_col = common_joints,
                                  dist_cols = result_cols,
                                  delta_cols = deltas\<rparr>)))"

text \<open>
  The interpolator object: the anchor abscissas and ordinates it was built from. Its
  constructor belongs to the scientific library and is a parameter of the model. It is
  called with \<open>kind="linear"\<close>, \<open>fill_value="extrapolate"\<close> and
  \<open>assume_sorted=True\<close>; with that flag the library neither sorts nor inspects the order
  of the abscissas. It builds the interpolator from a single point as well (the values of
  that interpolator are NaN); what it refuses is an empty list of points. This is the
  contract stated here, for one or more points.
\<close>

record corrector =
  anchor_xs :: "real list"
  anchor_ys :: "real list"

type_synonym interp1d = "real list \<Rightarrow> real list \<Rightarrow> py_error + corrector"

definition interp1d_contract :: "interp1d \<Rightarrow> bool" where
  "interp1d_contract interp \<longleftrightarrow>
     (\<forall>x y. length x = length y \<and> 1 \<le> length x \<longrightarrow>
        interp x y = Inr \<lparr>anchor_xs = x, anchor_ys = y\<rparr>)"

definition build_distance_corrector ::
  "interp1d \<Rightarrow> gw_table \<Rightarrow> int \<Rightarrow> int \<Rightarrow> py_error + corrector" where
  "build_distance_corrector interp gw_alignment source_year reference_year =
     (case map_of (dist_cols gw_alignment) source_year of
        None \<Rightarrow> Inl KeyError
      | Some src_dists \<Rightarrow>
          (case map_of (dist_cols gw_alignment) reference_year of
             None \<Rightarrow> Inl KeyError
           | Some ref_dists \<Rightarrow> interp src_dists ref_dists))"

text \<open>A constructor that meets the contract and refuses an empty list of points.\<close>

definition interp1d_linear :: interp1d where
  "interp1d_linear x y =
     (if length x = length y \<and> 1 \<le> length x then Inr \<lparr>anchor_xs = x, anchor_ys = y\<rparr>
      else Inl ValueError)"

subsection \<open>Notions used to state the aligner's properties\<close>

text \<open>
  The girth-weld readings of a run, stated on the rows of the run: the pairs of a joint
  number and a distance that some girth-weld row with both readings carries. The joints of
  a run are those with a reading, the distance of a joint is its least reading (the first
  one in the order of the pipe), and the common joints of the runs are the joints of
  every run.
\<close>

definition weld_readings :: "feature_row list \<Rightarrow> (int \<times> real) set" where
  "weld_readings df =
     {(py_int j, d) | r j d.
        r \<in> set df \<and> is_girth_weld r \<and> joint_number r = Fl j \<and> log_distance_ft r = Fl d}"

definition weld_joints :: "feature_row list \<Rightarrow> int set" where
  "weld_joints df = fst ` weld_readings df"

definition weld_distance :: "feature_row list \<Rightarrow> int \<Rightarrow> real" where
  "weld_distance df jn = Min {d. (jn, d) \<in> weld_readings df}"

definition common_weld_joints :: "(int \<times> feature_row list) list \<Rightarrow> int set" where
  "common_weld_joints runs = {jn. list_all (\<lambda>(year, df). jn \<in> weld_joints df) runs}"

section \<open>Example inputs\<close>

text \<open>A matched pair as the matcher emits it: 46 % deep in 2015, 70 % in 2022.\<close>

definition row0 :: match_record where
  "row0 = \<lparr>similarity = 1, confidence = 1, confidence_label = ''HIGH'',
     earlier_year = 2015, earlier_joint = Fl 5, earlier_distance = Fl 1000,
     earlier_orig_distance = Fl 1000, earlier_clock = Fl 3, earlier_depth_pct = Fl 46,
     earlier_length_in = Fl 2, earlier_width_in = Fl 1, earlier_event_type = ''Metal Loss'',
     earlier_id_od = ''External'', earlier_comments = [], earlier_wall_thickness = Fl (3 / 10),
     earlier_row_idx = 4,
     later_year = 2022, later_joint = Fl 5, later_distance = Fl 1000,
     later_orig_distance = Fl 1000, later_clock = Fl 3, later_depth_pct = Fl 70,
     later_length_in = Fl 2, later_width_in = Fl 1, later_event_type = ''Metal Loss'',
     later_id_od = ''External'', later_comments = [], later_wall_thickness = Fl (3 / 10),
     later_row_idx = 7,
     years_between = 8, depth_growth_pct = Fl 24, depth_growth_rate = Fl 3,
     length_growth_in = Fl 0, length_growth_rate = Fl 0,
     width_growth_in = Fl 0, width_growth_rate = Fl 0,
     remaining_wall_pct = None, remaining_life_years = None, growth_class = None,
     risk_score = None, risk_category = None\<rparr>"

text \<open>
  Two aligned runs, 2015 and 2022. The 2022 run has a girth weld (row 0), a metal loss at
  1000 ft, 3 o'clock, 24 % deep (row 1) and a metal loss at 1500 ft (row 2); the 2015 run
  has a metal loss at corrected distance 1000 ft, 3 o'clock, 20 % deep (row 0) and a dent
  at 1200 ft (row 1).
\<close>

definition later_weld :: feature_row where
  "later_weld = \<lparr>joint_number = Fl 5, log_distance_ft = Fl 990, corrected_distance = Fl 990,
     event_type = ''Girth Weld'', depth_pct = NaN, length_in = NaN, width_in = NaN,
     clock_hours = NaN, id_od = ''Unknown'', wall_thickness_in = Fl (3 / 10), comments = [],
     source_row_idx = 0, run_year = 2022, is_anomaly = False, is_girth_weld = True\<rparr>"

definition later_a :: feature_row where
  "later_a = \<lparr>joint_number = Fl 5, log_distance_ft = Fl 1000, corrected_distance = Fl 1000,
     event_type = ''Metal Loss'', depth_pct = Fl 24, length_in = Fl 2, width_in = Fl 1,
     clock_hours = Fl 3, id_od = ''External'', wall_thickness_in = Fl (3 / 10), comments = [],
     source_row_idx = 1, run_year = 2022, is_anomaly = True, is_girth_weld = False\<rparr>"

definition later_b :: feature_row where
  "later_b = later_a\<lparr>log_distance_ft := Fl 1500, corrected_distance := Fl 1500,
     depth_pct := Fl 12, source_row_idx := 2\<rparr>"

definition earlier_a :: feature_row where
  "earlier_a = \<lparr>joint_number = Fl 5, log_distance_ft = Fl (19970 / 20), corrected_distance = Fl 1000,
     event_type = ''Metal Loss'', depth_pct = Fl 20, length_in = Fl 2, width_in = Fl 1,
     clock_hours = Fl 3, id_od = ''External'', wall_thickness_in = Fl (3 / 10), comments = [],
     source_row_idx = 0, run_year = 2015, is_anomaly = True, is_girth_weld = False\<rparr>"

definition earlier_b :: feature_row where
  "earlier_b = earlier_a\<lparr>log_distance_ft := Fl 1198, corrected_distance := Fl 1200,
     event_type := ''Dent'', depth_pct := Fl 3, source_row_idx := 1\<rparr>"

definition run_2022 :: "feature_row list" where
  "run_2022 = [later_weld, later_a, later_b]"

definition run_2015 :: "feature_row list" where
  "run_2015 = [earlier_a, earlier_b]"

text \<open>The match record the matcher builds for the pair at 1000 ft, seven years apart.\<close>

definition match_aa :: match_record where
  "match_aa = \<lparr>similarity = 9733 / 10000, confidence = 9893 / 10000, confidence_label = ''HIGH'',
     earlier_year = 2015, earlier_joint = Fl 5, earlier_distance = Fl 1000,
     earlier_orig_distance = Fl (9985 / 10), earlier_clock = Fl 3, earlier_depth_pct = Fl 20,
     earlier_length_in = Fl 2, earlier_width_in = Fl 1, earlier_event_type = ''Metal Loss'',
     earlier_id_od = ''External'', earlier_comments = [], earlier_wall_thickness = Fl (3 / 10),
     earlier_row_idx = 0,
     later_year = 2022, later_joint = Fl 5, later_distance = Fl 1000,
     later_orig_distance = Fl 1000, later_clock = Fl 3, later_depth_pct = Fl 24,
     later_length_in = Fl 2, later_width_in = Fl 1, later_event_type = ''Metal Loss'',
     later_id_od = ''External'', later_comments = [], later_wall_thickness = Fl (3 / 10),
     later_row_idx = 1,
     years_between = 7, depth_growth_pct = Fl 4, depth_growth_rate = Fl (571 / 1000),
     length_growth_in = Fl 0, length_growth_rate = Fl 0,
     width_growth_in = Fl 0, width_growth_rate = Fl 0,
     remaining_wall_pct = None, remaining_life_years = None, growth_class = None,
     risk_score = None, risk_category = None\<rparr>"

definition result_2015_2022 :: match_result where
  "result_2015_2022 =
     \<lparr>matches = [match_aa], new_anomalies = [later_b], missing_anomalies = [earlier_b],
      stats = \<lparr>total_matches = 1, stat_new_anomalies = Some 1, stat_missing_anomalies = Some 1,
                high_confidence = Some 1, medium_confidence = Some 0, low_confidence = Some 0,
                avg_similarity = Some (973 / 1000), avg_confidence = Some (989 / 1000),
                avg_depth_growth_rate = Some (Fl (571 / 1000)), negative_growth_count = Some 0,
                high_growth_count = Some 0\<rparr>\<rparr>"

text \<open>
  A 2022 metal loss at 1002.75 ft, 3 o'clock, 50 % deep and 6.75 in long: against the 2015
  metal loss at 1000 ft (20 % deep, 2 in long) it passes the three gates with the
  sub-scores 1/12 (distance), 1 (clock), 0 (depth), 5/24 (dimensions) and 1 (type).
\<close>

definition later_c :: feature_row where
  "later_c = later_a\<lparr>log_distance_ft := Fl (100275 / 100),
     corrected_distance := Fl (100275 / 100), depth_pct := Fl 50, length_in := Fl (675 / 100)\<rparr>"

text \<open>
  A 2022 dent that carries no depth reading (row 3): it is flagged as an anomaly, and
  \<open>get_anomalies\<close> leaves it out.
\<close>

definition later_dent :: feature_row where
  "later_dent = later_a\<lparr>log_distance_ft := Fl 1600, corrected_distance := Fl 1600,
     event_type := ''Dent'', depth_pct := NaN, source_row_idx := 3\<rparr>"

definition run_2022_dent :: "feature_row list" where
  "run_2022_dent = [later_weld, later_a, later_b, later_dent]"

text \<open>
  A pair across the 12 o'clock position: a 2022 metal loss at 2001 ft and 0.3 h (0:18),
  30 % deep, and a 2015 metal loss at corrected distance 2000 ft and 11.5 h (11:30), 27 %
  deep. The distances differ by 1 ft and the clock positions by 0.8 h around the pipe.
\<close>

definition later_w :: feature_row where
  "later_w = later_a\<lparr>log_distance_ft := Fl 2001, corrected_distance := Fl 2001,
     clock_hours := Fl (3 / 10), depth_pct := Fl 30, source_row_idx := 3\<rparr>"

definition earlier_w :: feature_row where
  "earlier_w = earlier_a\<lparr>log_distance_ft := Fl 1998, corrected_distance := Fl 2000,
     clock_hours := Fl (115 / 10), depth_pct := Fl 27, source_row_idx := 2\<rparr>"

definition match_w :: match_record where
  "match_w = \<lparr>similarity = 83 / 100, confidence = 932 / 1000, confidence_label = ''HIGH'',
     earlier_year = 2015, earlier_joint = Fl 5, earlier_distance = Fl 2000,
     earlier_orig_distance = Fl 1998, earlier_clock = Fl (115 / 10), earlier_depth_pct = Fl 27,
     earlier_length_in = Fl 2, earlier_width_in = Fl 1, earlier_event_type = ''Metal Loss'',
     earlier_id_od = ''External'', earlier_comments = [], earlier_wall_thickness = Fl (3 / 10),
     earlier_row_idx = 2,
     later_year = 2022, later_joint = Fl 5, later_distance = Fl 2001,
     later_orig_distance = Fl 2001, later_clock = Fl (3 / 10), later_depth_pct = Fl 30,
     later_length_in = Fl 2, later_width_in = Fl 1, later_event_type = ''Metal Loss'',
     later_id_od = ''External'', later_comments = [], later_wall_thickness = Fl (3 / 10),
     later_row_idx = 3,
     years_between = 7, depth_growth_pct = Fl 3, depth_growth_rate = Fl (429 / 1000),
     length_growth_in = Fl 0, length_growth_rate = Fl 0,
     width_growth_in = Fl 0, width_growth_rate = Fl 0,
     remaining_wall_pct = None, remaining_life_years = None, growth_class = None,
     risk_score = None, risk_category = None\<rparr>"

definition result_wrap :: match_result where
  "result_wrap =
     \<lparr>matches = [match_w], new_anomalies = [], missing_anomalies = [],
      stats = \<lparr>total_matches = 1, stat_new_anomalies = Some 0, stat_missing_anomalies = Some 0,
                high_confidence = Some 1, medium_confidence = Some 0, low_confidence = Some 0,
                avg_similarity = Some (83 / 100), avg_confidence = Some (932 / 1000),
                avg_depth_growth_rate = Some (Fl (429 / 1000)), negative_growth_count = Some 0,
                high_growth_count = Some 0\<rparr>\<rparr>"

text \<open>
  The 2015 metal loss of row 0 and the 2022 metal loss of row 1 without a corrected
  distance, as a corrector built on a single anchor leaves them.
\<close>

definition earlier_nan :: feature_row where
  "earlier_nan = earlier_a\<lparr>corrected_distance := NaN\<rparr>"

definition later_nan :: feature_row where
  "later_nan = later_a\<lparr>corrected_distance := NaN\<rparr>"






text \<open>
  Two runs whose girth welds carry the joint numbers 10 and 20. In the 2022 run joint 10
  lies at 102 ft and joint 20 at 205 ft; in the 2007 run the labels are swapped along the
  pipe: joint 10 lies at 200 ft and joint 20 at 100 ft.
\<close>

definition weld :: "int \<Rightarrow> real \<Rightarrow> real \<Rightarrow> nat \<Rightarrow> feature_row" where
  "weld year jn d idx =
     \<lparr>joint_number = Fl jn, log_distance_ft = Fl d, corrected_distance = NaN,
      event_type = ''Girth Weld'', depth_pct = NaN, length_in = NaN, width_in = NaN,
      clock_hours = NaN, id_od = ''Unknown'', wall_thickness_in = Fl (3 / 10), comments = [],
      source_row_idx = idx, run_year = year, is_anomaly = False, is_girth_weld = True\<rparr>"

definition welds_2007 :: "feature_row list" where
  "welds_2007 = [weld 2007 20 100 0, weld 2007 10 200 1]"

definition welds_2022 :: "feature_row list" where
  "welds_2022 = [weld 2022 10 102 0, weld 2022 20 205 1]"

definition swapped_runs :: "(int \<times> feature_row list) list" where
  "swapped_runs = [(2007, welds_2007), (2022, welds_2022)]"

definition swapped_table :: gw_table where
  "swapped_table =
     \<lparr>joint_number_col = [10, 20],
      dist_cols = [(2007, [200, 100]), (2022, [102, 205])],
      delta_cols = [((2007, 2022), [- 98, 105])]\<rparr>"

text \<open>
  Two runs that share the joint 10 only: the 2007 run has the joints 10 and 30, the 2022
  run the joints 10 and 20.
\<close>

definition welds_2007_single :: "feature_row list" where
  "welds_2007_single = [weld 2007 10 100 0, weld 2007 30 300 1]"

definition single_runs :: "(int \<times> feature_row list) list" where
  "single_runs = [(2007, welds_2007_single), (2022, welds_2022)]"

definition single_table :: gw_table where
  "single_table =
     \<lparr>joint_number_col = [10],
      dist_cols = [(2007, [100]), (2022, [102])],
      delta_cols = [((2007, 2022), [2])]\<rparr>"

text \<open>Two runs without a common joint: the joints 30 and 40 in 2007, 10 and 20 in 2022.\<close>

definition welds_2007_other :: "feature_row list" where
  "welds_2007_other = [weld 2007 30 100 0, weld 2007 40 300 1]"

definition disjoint_runs :: "(int \<times> feature_row list) list" where
  "disjoint_runs = [(2007, welds_2007_other), (2022, welds_2022)]"

section \<open>Properties of rounding\<close>

lemma round_half_even_bounds:
  "of_int (round_half_even x) - 1 / 2 \<le> x \<and> x \<le> of_int (round_half_even x) + 1 / 2"
  unfolding round_half_even_def Let_def
  by (auto; linarith)

lemma round_half_even_mono:
  assumes "x \<le> y"
  shows "round_half_even x \<le> round_half_even y"
proof (cases "\<lfloor>x\<rfloor> = \<lfloor>y\<rfloor>")
  case True
  with assms show ?thesis
    unfolding round_half_even_def Let_def by auto
next
  case False
  with assms have "\<lfloor>x\<rfloor> < \<lfloor>y\<rfloor>"
    by (simp add: floor_mono order.not_eq_order_implies_strict)
  moreover have "round_half_even x \<le> \<lfloor>x\<rfloor> + 1"
    unfolding round_half_even_def Let_def by auto
  moreover have "\<lfloor>y\<rfloor> \<le> round_half_even y"
    unfolding round_half_even_def Let_def by auto
  ultimately show ?thesis by linarith
qed

lemma round_half_even_nonneg: "0 \<le> x \<Longrightarrow> 0 \<le> round_half_even x"
  unfolding round_half_even_def Let_def by auto

lemma py_round_mono: "x \<le> y \<Longrightarrow> py_round x n \<le> py_round y n"
  unfolding py_round_def
  by (intro divide_right_mono) (auto intro!: round_half_even_mono mult_right_mono)

lemma py_round_close: "\<bar>py_round x 1 - x\<bar> \<le> 1 / 20"
proof -
  have "of_int (round_half_even (x * 10)) - 1 / 2 \<le> x * 10"
    and "x * 10 \<le> of_int (round_half_even (x * 10)) + 1 / 2"
    using round_half_even_bounds[of "x * 10"] by auto
  then have "of_int (round_half_even (x * 10)) / 10 - x \<le> 1 / 20"
    and "- (of_int (round_half_even (x * 10)) / 10 - x) \<le> 1 / 20"
    by linarith+
  then have "\<bar>of_int (round_half_even (x * 10)) / 10 - x\<bar> \<le> 1 / 20"
    by (rule abs_leI)
  then show ?thesis unfolding py_round_def by simp
qed

section \<open>Growth scorer\<close>

lemma rounds_to_tenth_half_even: "rounds_to_tenth half_even_tenth"
  unfolding rounds_to_tenth_def half_even_tenth_def
proof (intro allI conjI)
  fix x :: real
  show "\<exists>k::int. py_round x 1 = of_int k / 10"
    by (rule exI[of _ "round_half_even (x * 10 ^ 1)"]) (simp add: py_round_def)
  show "\<bar>py_round x 1 - x\<bar> \<le> 1 / 20" by (rule py_round_close)
qed

lemma remaining_life_quotient:
  assumes "depth_growth_rate row = Fl r" and "0 < r" and "later_depth_pct row = Fl d"
    and "d < 80"
  shows "remaining_life round_tenth row = Fl (round_tenth ((80 - d) / r))"
  using assms by (simp add: remaining_life_def WALL_LOSS_REPAIR_THRESHOLD_def)

text \<open>
  Claim C6, as stated: for a strictly positive rate the remaining life equals
  \<open>(80 - later depth) / rate\<close>, clamped at 0. The code rounds the quotient to one decimal:
  at depth 70 and rate 3 it returns 3.3, and no rounding to a multiple of 0.1 returns 10/3.
\<close>

theorem remaining_life_exact_quotient_counterexample:
  "remaining_life half_even_tenth row0 = Fl (33 / 10)
   \<and> (\<nexists>round_tenth. rounds_to_tenth round_tenth
          \<and> remaining_life round_tenth row0 = Fl (max 0 ((80 - 70) / 3)))"
proof
  show "remaining_life half_even_tenth row0 = Fl (33 / 10)"
    by (simp add: remaining_life_def row0_def WALL_LOSS_REPAIR_THRESHOLD_def
        half_even_tenth_def py_round_def round_half_even_def)
  show "\<nexists>round_tenth. rounds_to_tenth round_tenth
          \<and> remaining_life round_tenth row0 = Fl (max 0 ((80 - 70) / 3))"
  proof
    assume "\<exists>round_tenth. rounds_to_tenth round_tenth
          \<and> remaining_life round_tenth row0 = Fl (max 0 ((80 - 70) / 3))"
    then obtain rnd where c: "rounds_to_tenth rnd"
      and e: "remaining_life rnd row0 = Fl (max 0 ((80 - 70) / 3))" by blast
    have "remaining_life rnd row0 = Fl (rnd ((80 - 70) / 3))"
      by (rule remaining_life_quotient) (simp_all add: row0_def)
    with e have v: "rnd (10 / 3) = 10 / 3" by simp
    from c obtain k :: int where "rnd (10 / 3) = of_int k / 10"
      unfolding rounds_to_tenth_def by blast
    with v have "(of_int (3 * k) :: real) = of_int 100" by simp
    then have "3 * k = 100" by (simp only: of_int_eq_iff)
    then show False by presburger
  qed
qed

text \<open>
  Claim C6, amended: \<open>remaining_life_years\<close> is NaN when the rate is NaN or at most 0
  (so also at rate 0 and depth 80) and when the later depth is NaN; for a strictly
  positive rate it is 0 when the later depth is at least 80, and otherwise it is
  \<open>(80 - later depth) / rate\<close> rounded to one decimal: a non-negative multiple of 0.1
  within 0.05 of the quotient. Which of the two neighbouring tenths a quotient halfway
  between them is rounded to is not determined by the contract of the rounding.
\<close>

theorem remaining_life_rounded:
  assumes "rounds_to_tenth round_tenth"
  shows
  "(isnan (depth_growth_rate row) \<or> fl_le (depth_growth_rate row) 0
      \<longrightarrow> remaining_life round_tenth row = NaN)
   \<and> (\<forall>r d. depth_growth_rate row = Fl r \<and> 0 < r \<and> later_depth_pct row = Fl d \<longrightarrow>
         (80 \<le> d \<longrightarrow> remaining_life round_tenth row = Fl 0) \<and>
         (d < 80 \<longrightarrow>
            (\<exists>k::int. 0 \<le> k \<and> remaining_life round_tenth row = Fl (of_int k / 10)
                      \<and> \<bar>of_int k / 10 - (80 - d) / r\<bar> \<le> 1 / 20)))
   \<and> (isnan (later_depth_pct row) \<longrightarrow> remaining_life round_tenth row = NaN)"
proof (intro conjI allI impI)
  assume "isnan (depth_growth_rate row) \<or> fl_le (depth_growth_rate row) 0"
  then show "remaining_life round_tenth row = NaN"
    by (cases "depth_growth_rate row"; cases "later_depth_pct row")
       (auto simp: remaining_life_def)
next
  assume "isnan (later_depth_pct row)"
  then show "remaining_life round_tenth row = NaN"
    by (cases "depth_growth_rate row"; cases "later_depth_pct row")
       (auto simp: remaining_life_def)
next
  fix r d
  assume "depth_growth_rate row = Fl r \<and> 0 < r \<and> later_depth_pct row = Fl d" and "80 \<le> d"
  then show "remaining_life round_tenth row = Fl 0"
    by (simp add: remaining_life_def WALL_LOSS_REPAIR_THRESHOLD_def)
next
  fix r d
  assume h: "depth_growth_rate row = Fl r \<and> 0 < r \<and> later_depth_pct row = Fl d"
    and d: "d < 80"
  let ?q = "(80 - d) / r"
  from h d have eq: "remaining_life round_tenth row = Fl (round_tenth ?q)"
    by (intro remaining_life_quotient) simp_all
  from assms obtain k :: int where k: "round_tenth ?q = of_int k / 10"
    unfolding rounds_to_tenth_def by blast
  from assms have close: "\<bar>round_tenth ?q - ?q\<bar> \<le> 1 / 20"
    unfolding rounds_to_tenth_def by blast
  from h d have "0 < ?q" by simp
  with close k have "- 1 / 2 < (of_int k :: real)" by linarith
  then have "(of_int (- 1) :: real) < of_int k" by simp
  then have "- 1 < k" by (simp only: of_int_less_iff)
  then have "0 \<le> k" by simp
  moreover from eq have "remaining_life round_tenth row = Fl (of_int k / 10)"
    by (simp only: k)
  moreover from close have "\<bar>of_int k / 10 - (80 - d) / r\<bar> \<le> 1 / 20"
    by (simp only: k)
  ultimately show "\<exists>k::int. 0 \<le> k \<and> remaining_life round_tenth row = Fl (of_int k / 10)
                      \<and> \<bar>of_int k / 10 - (80 - d) / r\<bar> \<le> 1 / 20"
    by blast
qed

theorem remaining_life_rounded_witness:
  "rounds_to_tenth half_even_tenth
   \<and> remaining_life half_even_tenth row0 = Fl (33 / 10)
   \<and> remaining_life half_even_tenth (row0\<lparr>later_depth_pct := Fl 80\<rparr>) = Fl 0
   \<and> remaining_life half_even_tenth
         (row0\<lparr>later_depth_pct := Fl 80, depth_growth_rate := Fl 0\<rparr>) = NaN
   \<and> remaining_life half_even_tenth (row0\<lparr>depth_growth_rate := NaN\<rparr>) = NaN"
proof -
  note c = rounds_to_tenth_half_even
  have a: "depth_growth_rate row0 = Fl 3 \<and> (0::real) < 3 \<and> later_depth_pct row0 = Fl 70"
    by (simp add: row0_def)
  have lt: "(70::real) < 80" by simp
  from remaining_life_rounded[OF c, of row0] a lt
  have "\<exists>k::int. 0 \<le> k \<and> remaining_life half_even_tenth row0 = Fl (of_int k / 10)
          \<and> \<bar>of_int k / 10 - (80 - 70) / (3::real)\<bar> \<le> 1 / 20"
    by blast
  then obtain k :: int where k: "remaining_life half_even_tenth row0 = Fl (of_int k / 10)"
    and b: "\<bar>of_int k / 10 - (80 - 70) / (3::real)\<bar> \<le> 1 / 20"
    by blast
  from b have b1: "of_int k / 10 - (80 - 70) / (3::real) \<le> 1 / 20"
    and b2: "- (of_int k / 10 - (80 - 70) / (3::real)) \<le> 1 / 20"
    unfolding abs_le_iff by blast+
  from b1 have "(of_int k :: real) < 34" by simp
  moreover from b2 have "32 < (of_int k :: real)" by simp
  ultimately have "32 < k" and "k < 34" by simp_all
  then have "k = 33" by simp
  with k have "remaining_life half_even_tenth row0 = Fl (33 / 10)" by simp
  moreover have "remaining_life half_even_tenth (row0\<lparr>later_depth_pct := Fl 80\<rparr>) = Fl 0"
    using remaining_life_rounded[OF c, of "row0\<lparr>later_depth_pct := Fl 80\<rparr>"]
    by (simp add: row0_def)
  moreover have
    "remaining_life half_even_tenth
       (row0\<lparr>later_depth_pct := Fl 80, depth_growth_rate := Fl 0\<rparr>) = NaN"
    using remaining_life_rounded[OF c,
        of "row0\<lparr>later_depth_pct := Fl 80, depth_growth_rate := Fl 0\<rparr>"]
    by simp
  moreover have "remaining_life half_even_tenth (row0\<lparr>depth_growth_rate := NaN\<rparr>) = NaN"
    using remaining_life_rounded[OF c, of "row0\<lparr>depth_growth_rate := NaN\<rparr>"]
    by simp
  ultimately show ?thesis using c by blast
qed

text \<open>
  At depth 75.5 and rate 10 the quotient is 0.45, halfway between 0.4 and 0.5: the two
  roundings differ there, and both values are within the bound of the theorem.
\<close>

lemma rounds_to_tenth_half_up: "rounds_to_tenth half_up_tenth"
  unfolding rounds_to_tenth_def half_up_tenth_def
proof (intro allI conjI)
  fix x :: real
  show "\<exists>k::int. of_int \<lfloor>x * 10 + 1 / 2\<rfloor> / 10 = of_int k / 10" by blast
  have "of_int \<lfloor>x * 10 + 1 / 2\<rfloor> \<le> x * 10 + 1 / 2"
    and "x * 10 + 1 / 2 < of_int \<lfloor>x * 10 + 1 / 2\<rfloor> + 1" by linarith+
  then have "of_int \<lfloor>x * 10 + 1 / 2\<rfloor> / 10 - x \<le> 1 / 20"
    and "- (of_int \<lfloor>x * 10 + 1 / 2\<rfloor> / 10 - x) \<le> 1 / 20" by linarith+
  then show "\<bar>of_int \<lfloor>x * 10 + 1 / 2\<rfloor> / 10 - x\<bar> \<le> 1 / 20" by (rule abs_leI)
qed

lemma remaining_life_halfway:
  "remaining_life half_even_tenth
     (row0\<lparr>later_depth_pct := Fl (755 / 10), depth_growth_rate := Fl 10\<rparr>) = Fl (4 / 10)
   \<and> remaining_life half_up_tenth
     (row0\<lparr>later_depth_pct := Fl (755 / 10), depth_growth_rate := Fl 10\<rparr>) = Fl (5 / 10)"
  by (simp add: remaining_life_def WALL_LOSS_REPAIR_THRESHOLD_def half_even_tenth_def
      half_up_tenth_def py_round_def round_half_even_def)

text \<open>
  Claim C7: the risk score is monotone. Of two rows that differ only in the later depth,
  the deeper one never has the smaller score; of two rows that differ only in the depth
  growth rate, the faster one never has the smaller score.
\<close>

theorem risk_score_monotone:
  "(d1 \<le> d2 \<longrightarrow>
      compute_risk_score (row\<lparr>later_depth_pct := Fl d1\<rparr>)
        \<le> compute_risk_score (row\<lparr>later_depth_pct := Fl d2\<rparr>))
   \<and> (r1 \<le> r2 \<longrightarrow>
      compute_risk_score (row\<lparr>depth_growth_rate := Fl r1\<rparr>)
        \<le> compute_risk_score (row\<lparr>depth_growth_rate := Fl r2\<rparr>))"
proof (intro conjI impI)
  assume "d1 \<le> d2"
  then have "min 50 (d1 * 50 / 80) \<le> min 50 (d2 * 50 / 80)" by auto
  then show "compute_risk_score (row\<lparr>later_depth_pct := Fl d1\<rparr>)
        \<le> compute_risk_score (row\<lparr>later_depth_pct := Fl d2\<rparr>)"
    unfolding compute_risk_score_def Let_def WALL_LOSS_REPAIR_THRESHOLD_def
    by (intro py_round_mono) simp
next
  assume le: "r1 \<le> r2"
  let ?c = "\<lambda>r::real. if r < 0 then 0 else r"
  from le have "?c r1 \<le> ?c r2" by auto
  then have "min 50 (?c r1 * 50 / 5) \<le> min 50 (?c r2 * 50 / 5)" by auto
  then show "compute_risk_score (row\<lparr>depth_growth_rate := Fl r1\<rparr>)
        \<le> compute_risk_score (row\<lparr>depth_growth_rate := Fl r2\<rparr>)"
    unfolding compute_risk_score_def Let_def MAX_PLAUSIBLE_GROWTH_RATE_def
    by (intro py_round_mono) simp
qed

theorem risk_score_monotone_witness:
  "compute_risk_score (row0\<lparr>later_depth_pct := Fl 40\<rparr>)
      \<le> compute_risk_score (row0\<lparr>later_depth_pct := Fl 72\<rparr>)
   \<and> compute_risk_score (row0\<lparr>depth_growth_rate := Fl (-1)\<rparr>)
      \<le> compute_risk_score (row0\<lparr>depth_growth_rate := Fl 2\<rparr>)"
  using risk_score_monotone[of 40 72 row0 "-1" 2] by simp

lemma remaining_life_frame:
  "remaining_life rnd (r\<lparr>remaining_wall_pct := a\<rparr>) = remaining_life rnd r"
  "remaining_life rnd (r\<lparr>remaining_life_years := b\<rparr>) = remaining_life rnd r"
  "remaining_life rnd (r\<lparr>growth_class := c\<rparr>) = remaining_life rnd r"
  "remaining_life rnd (r\<lparr>risk_score := d\<rparr>) = remaining_life rnd r"
  "remaining_life rnd (r\<lparr>risk_category := e\<rparr>) = remaining_life rnd r"
  by (simp_all add: remaining_life_def)

lemma compute_risk_score_frame:
  "compute_risk_score (r\<lparr>remaining_wall_pct := a\<rparr>) = compute_risk_score r"
  "compute_risk_score (r\<lparr>remaining_life_years := b\<rparr>) = compute_risk_score r"
  "compute_risk_score (r\<lparr>growth_class := c\<rparr>) = compute_risk_score r"
  "compute_risk_score (r\<lparr>risk_score := d\<rparr>) = compute_risk_score r"
  "compute_risk_score (r\<lparr>risk_category := e\<rparr>) = compute_risk_score r"
  by (simp_all add: compute_risk_score_def)

lemma calculate_growth_rates_columns:
  "r \<in> set (calculate_growth_rates round_tenth matches_df) \<Longrightarrow>
     remaining_wall_pct r = Some (fl_sub (Fl 100) (later_depth_pct r)) \<and>
     remaining_life_years r = Some (remaining_life round_tenth r) \<and>
     growth_class r = Some (classify_growth (depth_growth_rate r)) \<and>
     risk_score r = Some (Fl (compute_risk_score r)) \<and>
     risk_category r = Some (classify_risk (Fl (compute_risk_score r)))"
  by (auto simp add: calculate_growth_rates_def Let_def comp_def
      remaining_life_frame compute_risk_score_frame split: if_splits)

text \<open>
  Claim C8: the growth scorer is idempotent. Scoring an already scored match set returns
  the once-scored set: the five derived columns are recomputed from the later depth and
  the depth growth rate, which scoring does not change.
\<close>

theorem calculate_growth_rates_idempotent:
  "calculate_growth_rates round_tenth (calculate_growth_rates round_tenth matches_df)
     = calculate_growth_rates round_tenth matches_df"
  by (simp add: calculate_growth_rates_def Let_def comp_def
      remaining_life_frame compute_risk_score_frame)

section \<open>The reference library calls meet their contracts\<close>

lemma kdtree_contract_query_ball_point: "kdtree_contract query_ball_point"
  by (auto simp: kdtree_contract_def query_ball_point_def)

lemma inj_maps_props:
  "distinct cols \<Longrightarrow> a \<in> set (inj_maps rows cols) \<Longrightarrow>
     map fst a = rows \<and> distinct (map snd a) \<and> set (map snd a) \<subseteq> set cols"
proof (induction rows arbitrary: cols a)
  case Nil
  then show ?case by simp
next
  case (Cons i rows)
  from Cons.prems(2) obtain j b where j: "j \<in> set cols"
    and b: "b \<in> set (inj_maps rows (remove1 j cols))" and a: "a = (i, j) # b"
    by auto
  from Cons.prems(1) have d: "distinct (remove1 j cols)" by simp
  from Cons.IH[OF d b] have ih: "map fst b = rows" "distinct (map snd b)"
    "set (map snd b) \<subseteq> set (remove1 j cols)" by auto
  from Cons.prems(1) have "set (remove1 j cols) = set cols - {j}" by simp
  with ih j a show ?case by auto
qed

lemma distinct_map_insort_key:
  "distinct (map g (insort_key f x xs)) \<longleftrightarrow> g x \<notin> g ` set xs \<and> distinct (map g xs)"
  by (induct xs) (auto simp: set_insort_key)

lemma distinct_map_sort_key: "distinct (map g (sort_key f xs)) \<longleftrightarrow> distinct (map g xs)"
  by (induct xs) (auto simp: distinct_map_insort_key)

lemma arg_min_list_mem: "arg_min_list f (a # as) \<in> set (a # as)"
  by (rule arg_min_list_in) simp

lemma lsa_contract_linear_sum_assignment: "lsa_contract linear_sum_assignment"
  unfolding lsa_contract_def
proof (intro allI impI)
  fix C :: "real list list" and n m
  assume rect: "rectangular C n m"
  let ?m = "(case C of [] \<Rightarrow> 0 | row # _ \<Rightarrow> length row)"
  have n: "length C = n" using rect by (simp add: rectangular_def)
  have m: "C \<noteq> [] \<Longrightarrow> ?m = m"
  proof -
    assume "C \<noteq> []"
    then obtain row rest where C: "C = row # rest" by (cases C) auto
    with rect have "length (C ! 0) = m" by (auto simp: rectangular_def)
    with C show ?thesis by simp
  qed
  show "distinct (map fst (linear_sum_assignment C)) \<and>
        distinct (map snd (linear_sum_assignment C)) \<and>
        (\<forall>(i, j)\<in>set (linear_sum_assignment C). i < n \<and> j < m)"
  proof (cases "C = []")
    case True
    then show ?thesis by (simp add: linear_sum_assignment_def)
  next
    case False
    note mm = m[OF False]
    show ?thesis
    proof (cases "n \<le> m")
      case True
      show ?thesis
      proof (cases "inj_maps [0..<n] [0..<m]")
        case Nil
        with True n mm show ?thesis by (simp add: linear_sum_assignment_def)
      next
        case (Cons a as)
        let ?r = "arg_min_list (assignment_cost C) (a # as)"
        have eq: "linear_sum_assignment C = ?r"
          using True n mm Cons by (simp add: linear_sum_assignment_def)
        have "?r \<in> set (inj_maps [0..<n] [0..<m])"
          unfolding Cons by (rule arg_min_list_mem)
        from inj_maps_props[OF _ this]
        have r: "map fst ?r = [0..<n]" "distinct (map snd ?r)" "set (map snd ?r) \<subseteq> {0..<m}"
          by auto
        have "\<forall>(i, j)\<in>set ?r. i < n \<and> j < m"
        proof (clarify)
          fix i j assume "(i, j) \<in> set ?r"
          then have "i \<in> set (map fst ?r)" "j \<in> set (map snd ?r)" by force+
          with r show "i < n \<and> j < m" by auto
        qed
        with r show ?thesis unfolding eq by simp
      qed
    next
      case False
      show ?thesis
      proof (cases "inj_maps [0..<m] [0..<n]")
        case Nil
        with False n mm show ?thesis by (simp add: linear_sum_assignment_def)
      next
        case (Cons a as)
        let ?b = "arg_min_list (\<lambda>b. assignment_cost C (map prod.swap b)) (a # as)"
        let ?r = "sort_key fst (map prod.swap ?b)"
        have eq: "linear_sum_assignment C = ?r"
          using False n mm Cons by (simp add: linear_sum_assignment_def)
        have "?b \<in> set (inj_maps [0..<m] [0..<n])"
          unfolding Cons by (rule arg_min_list_mem)
        from inj_maps_props[OF _ this]
        have b: "map fst ?b = [0..<m]" "distinct (map snd ?b)" "set (map snd ?b) \<subseteq> {0..<n}"
          by auto
        have "distinct (map fst ?r)" "distinct (map snd ?r)"
          using b by (simp_all add: distinct_map_sort_key comp_def)
        moreover have "\<forall>(i, j)\<in>set ?r. i < n \<and> j < m"
        proof (clarify)
          fix i j assume "(i, j) \<in> set ?r"
          then have "(j, i) \<in> set ?b" by auto
          then have "j \<in> set (map fst ?b)" "i \<in> set (map snd ?b)" by force+
          with b show "i < n \<and> j < m" by auto
        qed
        ultimately show ?thesis unfolding eq by simp
      qed
    qed
  qed
qed

section \<open>Anomaly matching\<close>

subsection \<open>The candidate loop and the assignment loop\<close>

lemma candidate_step_inv:
  assumes "cost_inv L E years C"
  shows "cost_inv L E years (fst (candidate_step L E years i j (C, cnt)))"
proof (cases "candidate_step L E years i j (C, cnt) = (C, cnt)")
  case True
  with assms show ?thesis by simp
next
  case False
  then have pg: "passes_gates (L ! i) (E ! j)"
    and upd: "fst (candidate_step L E years i j (C, cnt))
           = C[i := (C ! i)[j := 1 - compute_similarity (L ! i) (E ! j) years]]"
    by (auto simp: candidate_step_def passes_gates_def Let_def split: if_splits)
  from assms have rect: "length C = length L" "\<forall>i < length L. length (C ! i) = length E"
    and cells: "\<forall>i < length L. \<forall>j < length E.
        C ! i ! j = LARGE_COST \<or>
        (passes_gates (L ! i) (E ! j) \<and> C ! i ! j = 1 - compute_similarity (L ! i) (E ! j) years)"
    by (auto simp: cost_inv_def rectangular_def)
  show ?thesis
    unfolding upd cost_inv_def rectangular_def
  proof (intro conjI allI impI)
    show "length (C[i := (C ! i)[j := 1 - compute_similarity (L ! i) (E ! j) years]]) = length L"
      using rect by simp
  next
    fix i' assume "i' < length L"
    then show "length (C[i := (C ! i)[j := 1 - compute_similarity (L ! i) (E ! j) years]] ! i') = length E"
      using rect by (cases "i' = i") auto
  next
    fix i' j' assume b: "i' < length L" "j' < length E"
    let ?C' = "C[i := (C ! i)[j := 1 - compute_similarity (L ! i) (E ! j) years]]"
    show "?C' ! i' ! j' = LARGE_COST \<or>
          (passes_gates (L ! i') (E ! j') \<and> ?C' ! i' ! j' = 1 - compute_similarity (L ! i') (E ! j') years)"
    proof (cases "i' = i \<and> j' = j")
      case True
      with b rect pg show ?thesis by simp
    next
      case False
      with b rect have "?C' ! i' ! j' = C ! i' ! j'"
        by (cases "i' = i") auto
      with cells b show ?thesis by simp
    qed
  qed
qed

lemma fold_candidate_step_inv:
  "cost_inv L E years (fst st) \<Longrightarrow>
   cost_inv L E years (fst (fold (candidate_step L E years i) js st))"
proof (induction js arbitrary: st)
  case Nil
  then show ?case by simp
next
  case (Cons j js)
  obtain C cnt where st: "st = (C, cnt)" by (cases st)
  with Cons.prems have "cost_inv L E years (fst (candidate_step L E years i j st))"
    using candidate_step_inv by simp
  from Cons.IH[OF this] show ?case by simp
qed

lemma finite_point_single:
  "finite_point (build_search_point_single row) \<longleftrightarrow> \<not> isnan (corrected_distance row)"
  by (simp add: finite_point_def build_search_point_single_def split: prod.splits)

lemma scan_rows_inv:
  "scan_rows query L E years tree is st = Inr st' \<Longrightarrow> cost_inv L E years (fst st) \<Longrightarrow>
     cost_inv L E years (fst st') \<and> (\<forall>i \<in> set is. \<not> isnan (corrected_distance (L ! i)))"
proof (induction "is" arbitrary: st)
  case Nil
  then show ?case by simp
next
  case (Cons i "is")
  let ?cand = "query tree (build_search_point_single (L ! i)) search_radius"
  from Cons.prems(1) have fin: "\<not> isnan (corrected_distance (L ! i))"
    and rest: "scan_rows query L E years tree is (fold (candidate_step L E years i) ?cand st)
                 = Inr st'"
    by (auto simp: query_ball_def finite_point_single Let_def split: if_splits)
  from Cons.prems(2) have "cost_inv L E years (fst (fold (candidate_step L E years i) ?cand st))"
    by (rule fold_candidate_step_inv)
  from Cons.IH[OF rest this] fin show ?case by simp
qed

lemma scan_rows_total:
  "\<forall>i \<in> set is. \<not> isnan (corrected_distance (L ! i)) \<Longrightarrow>
     \<exists>st'. scan_rows query L E years tree is st = Inr st'"
  by (induction "is" arbitrary: st) (simp_all add: query_ball_def finite_point_single)

lemma scan_rows_error:
  "scan_rows query L E years tree is st = Inl e \<Longrightarrow> e = ValueError"
  by (induction "is" arbitrary: st)
     (auto simp: query_ball_def Let_def split: if_splits)

lemma KDTree_points:
  "KDTree (build_search_points E) =
     (if \<forall>a \<in> set E. \<not> isnan (corrected_distance a) then Inr (build_search_points E)
      else Inl ValueError)"
  by (auto simp: KDTree_def build_search_points_def list_all_iff finite_point_single)

lemma scan_candidates_inv:
  assumes "scan_candidates query L E years = Inr (C, cnt)"
  shows "cost_inv L E years C"
    and "\<forall>a \<in> set L. \<not> isnan (corrected_distance a)"
    and "\<forall>a \<in> set E. \<not> isnan (corrected_distance a)"
proof -
  let ?init = "(replicate (length L) (replicate (length E) LARGE_COST), replicate (length L) (0::nat))"
  from assms show e: "\<forall>a \<in> set E. \<not> isnan (corrected_distance a)"
    unfolding scan_candidates_def Let_def KDTree_points by (simp split: if_splits)
  with assms have rows:
    "scan_rows query L E years (build_search_points E) [0..<length L] ?init = Inr (C, cnt)"
    unfolding scan_candidates_def Let_def KDTree_points by simp
  have "cost_inv L E years (fst ?init)"
    by (simp add: cost_inv_def rectangular_def)
  from scan_rows_inv[OF rows this]
  have c: "cost_inv L E years C"
    and l: "\<forall>i \<in> set [0..<length L]. \<not> isnan (corrected_distance (L ! i))" by simp_all
  from c show "cost_inv L E years C" .
  from l show "\<forall>a \<in> set L. \<not> isnan (corrected_distance a)"
    by (auto simp: in_set_conv_nth)
qed

lemma scan_candidates_total:
  assumes "\<forall>a \<in> set L. \<not> isnan (corrected_distance a)"
    and "\<forall>a \<in> set E. \<not> isnan (corrected_distance a)"
  shows "\<exists>C cnt. scan_candidates query L E years = Inr (C, cnt)"
proof -
  from assms(1) have "\<forall>i \<in> set [0..<length L]. \<not> isnan (corrected_distance (L ! i))"
    by simp
  from scan_rows_total[OF this] assms(2) show ?thesis
    unfolding scan_candidates_def Let_def KDTree_points by (simp add: split_paired_Ex)
qed

lemma scan_candidates_error:
  "scan_candidates query L E years = Inl e \<Longrightarrow> e = ValueError"
  unfolding scan_candidates_def Let_def KDTree_points
  by (auto split: if_splits dest: scan_rows_error)

lemma assign_loop_result:
  "assign_loop L E years C cnt asg (acc, ml, me) = Inr (acc', ml', me') \<Longrightarrow>
     \<exists>recs. acc' = acc @ recs \<and>
        list_all2 (\<lambda>rec (i, j). make_match L E years C cnt i j = Inr rec) recs (kept_pairs C asg) \<and>
        ml' = ml \<union> fst ` set (kept_pairs C asg) \<and>
        me' = me \<union> snd ` set (kept_pairs C asg)"
proof (induction asg arbitrary: acc ml me)
  case Nil
  then show ?case by (simp add: kept_pairs_def)
next
  case (Cons p asg)
  obtain i j where p: "p = (i, j)" by (cases p)
  show ?case
  proof (cases "1 - LOW_CONFIDENCE \<le> C ! i ! j")
    case True
    with Cons.prems p have "assign_loop L E years C cnt asg (acc, ml, me) = Inr (acc', ml', me')"
      by simp
    from Cons.IH[OF this] True p show ?thesis by (simp add: kept_pairs_def)
  next
    case False
    with Cons.prems p obtain rec where rec: "make_match L E years C cnt i j = Inr rec"
      and rest: "assign_loop L E years C cnt asg (acc @ [rec], insert i ml, insert j me)
                   = Inr (acc', ml', me')"
      by (auto split: sum.splits)
    from Cons.IH[OF rest] obtain recs where
      r: "acc' = (acc @ [rec]) @ recs"
         "list_all2 (\<lambda>rec (i, j). make_match L E years C cnt i j = Inr rec) recs (kept_pairs C asg)"
         "ml' = insert i ml \<union> fst ` set (kept_pairs C asg)"
         "me' = insert j me \<union> snd ` set (kept_pairs C asg)"
      by blast
    have k: "kept_pairs C (p # asg) = (i, j) # kept_pairs C asg"
      using False p by (simp add: kept_pairs_def)
    show ?thesis
    proof (intro exI[of _ "rec # recs"] conjI)
      show "acc' = acc @ rec # recs" using r(1) by simp
      show "list_all2 (\<lambda>rec (i, j). make_match L E years C cnt i j = Inr rec) (rec # recs)
              (kept_pairs C (p # asg))"
        unfolding k using r(2) rec by simp
      show "ml' = ml \<union> fst ` set (kept_pairs C (p # asg))"
        unfolding k using r(3) by auto
      show "me' = me \<union> snd ` set (kept_pairs C (p # asg))"
        unfolding k using r(4) by auto
    qed
  qed
qed

lemma build_match_record_fields:
  "build_match_record a_l a_e sim conf lab years = Inr rec \<Longrightarrow>
     later_row_idx rec = source_row_idx a_l \<and> earlier_row_idx rec = source_row_idx a_e \<and>
     later_clock rec = fl_round (clock_hours a_l) 2 \<and>
     earlier_clock rec = fl_round (clock_hours a_e) 2 \<and>
     later_distance rec = fl_round (corrected_distance a_l) 2 \<and>
     earlier_distance rec = fl_round (corrected_distance a_e) 2 \<and>
     later_depth_pct rec = depth_pct a_l \<and> earlier_depth_pct rec = depth_pct a_e \<and>
     similarity rec = py_round sim 4 \<and> confidence rec = conf \<and> confidence_label rec = lab"
  by (auto simp: build_match_record_def Let_def split: sum.splits)
subsection \<open>The clock distance is the distance around the pipe\<close>

text \<open>
  For two clock positions \<open>a\<close> and \<open>b\<close>, \<open>clock_distance\<close> is the least of the distances
  \<open>\<bar>a - b - 12 k\<bar>\<close> over the whole turns \<open>k\<close>: it is one of them, and none is smaller.
  The last lemma bounds the distance of two points of the unit circle, the two clock
  coordinates of a search point.
\<close>

lemma clock_distance_nan: "isnan h1 \<or> isnan h2 \<Longrightarrow> clock_distance h1 h2 = 6"
  by (cases h1; cases h2) (auto simp: clock_distance_def)

lemma py_fmod_range: "0 \<le> py_fmod x 12 \<and> py_fmod x 12 < 12"
proof -
  have "of_int \<lfloor>x / 12\<rfloor> \<le> x / 12" and "x / 12 < of_int \<lfloor>x / 12\<rfloor> + 1" by linarith+
  then show ?thesis unfolding py_fmod_def by (simp add: field_simps)
qed

lemma clock_distance_circular:
  "\<exists>k::int. clock_distance (Fl a) (Fl b) = \<bar>a - b - 12 * of_int k\<bar>"
proof -
  let ?f = "\<lfloor>\<bar>a - b\<bar> / 12\<rfloor>"
  let ?d = "py_fmod \<bar>a - b\<bar> 12"
  have r: "0 \<le> ?d" "?d < 12" using py_fmod_range[of "\<bar>a - b\<bar>"] by simp_all
  have d: "?d = \<bar>a - b\<bar> - 12 * of_int ?f" by (simp add: py_fmod_def)
  have cd: "clock_distance (Fl a) (Fl b) = min ?d (12 - ?d)"
    by (simp add: clock_distance_def Let_def)
  show ?thesis
  proof (cases "b \<le> a")
    case True
    then have e: "?d = a - b - 12 * of_int ?f" using d by simp
    show ?thesis
    proof (cases "?d \<le> 12 - ?d")
      case True
      with cd r e have "clock_distance (Fl a) (Fl b) = \<bar>a - b - 12 * of_int ?f\<bar>" by simp
      then show ?thesis by blast
    next
      case False
      with cd r e have "clock_distance (Fl a) (Fl b) = \<bar>a - b - 12 * of_int (?f + 1)\<bar>"
        by simp
      then show ?thesis by blast
    qed
  next
    case False
    then have e: "?d = - (a - b - 12 * of_int (- ?f))" using d by simp
    show ?thesis
    proof (cases "?d \<le> 12 - ?d")
      case True
      with cd r e have "clock_distance (Fl a) (Fl b) = \<bar>a - b - 12 * of_int (- ?f)\<bar>" by simp
      then show ?thesis by blast
    next
      case False
      with cd r e have "clock_distance (Fl a) (Fl b) = \<bar>a - b - 12 * of_int (- ?f - 1)\<bar>"
        by simp
      then show ?thesis by blast
    qed
  qed
qed

lemma clock_distance_least:
  "clock_distance (Fl a) (Fl b) \<le> \<bar>a - b - 12 * of_int k\<bar>"
proof -
  let ?f = "\<lfloor>\<bar>a - b\<bar> / 12\<rfloor>"
  let ?d = "py_fmod \<bar>a - b\<bar> 12"
  have r: "0 \<le> ?d" "?d < 12" using py_fmod_range[of "\<bar>a - b\<bar>"] by simp_all
  have d: "\<bar>a - b\<bar> = ?d + 12 * of_int ?f" by (simp add: py_fmod_def)
  have cd: "clock_distance (Fl a) (Fl b) = min ?d (12 - ?d)"
    by (simp add: clock_distance_def Let_def)
  have gen: "min ?d (12 - ?d) \<le> \<bar>?d + 12 * of_int m\<bar>" for m :: int
  proof -
    consider "m = 0" | "1 \<le> m" | "m \<le> - 1" by linarith
    then show ?thesis
    proof cases
      case 1
      with r show ?thesis by simp
    next
      case 2
      then have "(1::real) \<le> of_int m" by simp
      with r show ?thesis by linarith
    next
      case 3
      then have "of_int m \<le> (- 1::real)" by (metis of_int_le_iff of_int_minus of_int_1)
      with r show ?thesis by linarith
    qed
  qed
  have "\<bar>a - b - 12 * of_int k\<bar> = \<bar>?d + 12 * of_int (?f - k)\<bar>
        \<or> \<bar>a - b - 12 * of_int k\<bar> = \<bar>?d + 12 * of_int (?f + k)\<bar>"
  proof (cases "b \<le> a")
    case True
    then have "a - b = ?d + 12 * of_int ?f" using d by simp
    then have "a - b - 12 * of_int k = ?d + 12 * of_int (?f - k)" by (simp add: algebra_simps)
    then have "\<bar>a - b - 12 * of_int k\<bar> = \<bar>?d + 12 * of_int (?f - k)\<bar>" by (simp only:)
    then show ?thesis by (rule disjI1)
  next
    case False
    then have "a - b = - (?d + 12 * of_int ?f)" using d by simp
    then have "a - b - 12 * of_int k = - (?d + 12 * of_int (?f + k))" by (simp add: algebra_simps)
    then have "\<bar>a - b - 12 * of_int k\<bar> = \<bar>- (?d + 12 * of_int (?f + k))\<bar>" by (simp only:)
    then have "\<bar>a - b - 12 * of_int k\<bar> = \<bar>?d + 12 * of_int (?f + k)\<bar>" by (simp only: abs_minus)
    then show ?thesis by (rule disjI2)
  qed
  with gen cd show ?thesis by metis
qed

lemma chord_le_4:
  fixes x y :: real
  shows "(cos x - cos y)\<^sup>2 + (sin x - sin y)\<^sup>2 \<le> 4"
proof -
  have "(cos x - cos y)\<^sup>2 + (sin x - sin y)\<^sup>2
      = (cos x)\<^sup>2 + (sin x)\<^sup>2 + ((cos y)\<^sup>2 + (sin y)\<^sup>2) - 2 * (cos x * cos y + sin x * sin y)"
    by (simp add: power2_eq_square algebra_simps)
  also have "\<dots> = 2 - 2 * cos (x - y)" by (simp add: cos_diff)
  also have "\<dots> \<le> 4" using cos_ge_minus_one[of "x - y"] by linarith
  finally show ?thesis .
qed


subsection \<open>The matcher on the example runs\<close>

lemmas cfg = DISTANCE_TOLERANCE_FT_def CLOCK_TOLERANCE_HOURS_def WEIGHT_DISTANCE_def
  WEIGHT_CLOCK_def WEIGHT_DEPTH_def WEIGHT_DIMENSIONS_def WEIGHT_TYPE_def HIGH_CONFIDENCE_def
  MEDIUM_CONFIDENCE_def LOW_CONFIDENCE_def MAX_PLAUSIBLE_GROWTH_RATE_def LARGE_COST_def
  search_radius_def

lemmas ex_rows = later_weld_def later_a_def later_b_def earlier_a_def earlier_b_def

lemma anoms_2022: "get_anomalies run_2022 = [later_a, later_b]"
  by (simp add: get_anomalies_def run_2022_def ex_rows)

lemma anoms_2015: "get_anomalies run_2015 = [earlier_a, earlier_b]"
  by (simp add: get_anomalies_def run_2015_def ex_rows)

lemma sim_aa: "compute_similarity later_a earlier_a 7 = 73 / 75"
  by (simp add: compute_similarity_def ex_rows cfg clock_distance_def py_fmod_def safe_diff_def)

lemma scan_ex:
  "scan_candidates query_ball_point [later_a, later_b] [earlier_a, earlier_b] 7
     = Inr ([[2 / 75, 1000000], [1000000, 1000000]], [1, 0])"
  apply (simp add: scan_candidates_def KDTree_def query_ball_def finite_point_def
      build_search_points_def build_search_point_single_def
      clock_to_trig_def query_ball_point_def sq_dist_def cfg Let_def upt_rec[of 0] )
  apply (simp add: ex_rows)
  apply (simp add: candidate_step_def Let_def cfg clock_distance_def py_fmod_def types_compatible_def compute_similarity_def safe_diff_def)
  done


lemma lsa_ex:
  "linear_sum_assignment [[2 / 75, 1000000], [1000000, 1000000]] = [(0, 0), (1, 1)]"
  by (simp add: linear_sum_assignment_def upt_rec[of 0] upt_rec[of 1] assignment_cost_def Let_def)

lemma make_match_ex:
  "make_match [later_a, later_b] [earlier_a, earlier_b] 7
      [[2 / 75, 1000000], [1000000, 1000000]] [1, 0] 0 0 = Inr match_aa"
  by (simp add: make_match_def Let_def compute_confidence_def classify_confidence_def
      build_match_record_def annual_rate_def safe_sub_def ex_rows cfg py_int_def
      py_round_def round_half_even_def match_aa_def)

lemma assign_ex:
  "assign_loop [later_a, later_b] [earlier_a, earlier_b] 7
      [[2 / 75, 1000000], [1000000, 1000000]] [1, 0] [(0, 0), (1, 1)] ([], {}, {})
     = Inr ([match_aa], {0}, {0})"
  using make_match_ex by (simp add: cfg)

lemma stats_ex: "compute_match_stats [match_aa] [later_b] [earlier_b] =
   \<lparr>total_matches = 1, stat_new_anomalies = Some 1, stat_missing_anomalies = Some 1,
     high_confidence = Some 1, medium_confidence = Some 0, low_confidence = Some 0,
     avg_similarity = Some (973 / 1000), avg_confidence = Some (989 / 1000),
     avg_depth_growth_rate = Some (Fl (571 / 1000)), negative_growth_count = Some 0,
     high_growth_count = Some 0\<rparr>"
  by (simp add: compute_match_stats_def Let_def match_aa_def mean_def py_round_def
      round_half_even_def cfg)

lemma match_ex:
  "match_anomalies query_ball_point linear_sum_assignment run_2022 run_2015 7
     = Inr \<lparr>matches = [match_aa], new_anomalies = [later_b], missing_anomalies = [earlier_b],
            stats = compute_match_stats [match_aa] [later_b] [earlier_b]\<rparr>"
  using assign_ex
  by (simp add: match_anomalies_def anoms_2022 anoms_2015 scan_ex lsa_ex Let_def
      upt_rec[of 0] upt_rec[of 1])

lemma match_result_ex:
  "match_anomalies query_ball_point linear_sum_assignment run_2022 run_2015 7
     = Inr result_2015_2022"
  using match_ex by (simp add: stats_ex result_2015_2022_def)

lemma anoms_weld: "get_anomalies [later_weld] = []"
  by (simp add: get_anomalies_def later_weld_def)

lemma sim_ca: "compute_similarity later_c earlier_a 7 = 40 / 100"
  by (simp add: compute_similarity_def later_c_def ex_rows cfg clock_distance_def py_fmod_def
      safe_diff_def)

lemma anoms_c: "get_anomalies [later_c] = [later_c]" "get_anomalies [earlier_a] = [earlier_a]"
  by (simp_all add: get_anomalies_def later_c_def ex_rows)

lemma scan_c:
  "scan_candidates query_ball_point [later_c] [earlier_a] 7 = Inr ([[3 / 5]], [1])"
  apply (simp add: scan_candidates_def KDTree_def query_ball_def finite_point_def
      build_search_points_def build_search_point_single_def
      clock_to_trig_def query_ball_point_def sq_dist_def cfg Let_def)
  apply (simp add: later_c_def ex_rows power2_eq_square)
  apply (simp add: candidate_step_def Let_def cfg clock_distance_def py_fmod_def
      types_compatible_def compute_similarity_def safe_diff_def)
  done

lemma lsa_c: "linear_sum_assignment [[3 / 5]] = [(0, 0)]"
  by (simp add: linear_sum_assignment_def Let_def)

lemma match_anomalies_cong:
  "get_anomalies rl = get_anomalies rl' \<Longrightarrow> get_anomalies re = get_anomalies re' \<Longrightarrow>
     match_anomalies query solver rl re years = match_anomalies query solver rl' re' years"
  by (simp add: match_anomalies_def)

lemma anoms_2022_dent: "get_anomalies run_2022_dent = [later_a, later_b]"
  by (simp add: get_anomalies_def run_2022_dent_def later_dent_def ex_rows)

lemma match_dent_ex:
  "match_anomalies query_ball_point linear_sum_assignment run_2022_dent run_2015 7
     = Inr result_2015_2022"
  using match_result_ex
    match_anomalies_cong[of run_2022_dent run_2022 run_2015 run_2015
      query_ball_point linear_sum_assignment 7]
  by (simp add: anoms_2022_dent anoms_2022)

lemma anoms_wrap:
  "get_anomalies [later_weld, later_w] = [later_w]" "get_anomalies [earlier_w] = [earlier_w]"
  by (simp_all add: get_anomalies_def later_w_def earlier_w_def ex_rows)

lemma query_wrap:
  "query_ball_point (build_search_points [earlier_w]) (build_search_point_single later_w)
     search_radius = [0]"
proof -
  have "(cos (3 / 10 * 2 * pi / 12) - cos (115 / 10 * 2 * pi / 12))\<^sup>2
      + (sin (3 / 10 * 2 * pi / 12) - sin (115 / 10 * 2 * pi / 12))\<^sup>2 \<le> 4"
    by (rule chord_le_4)
  then have "(2000 - 2001)\<^sup>2 + (cos (115 / 10 * 2 * pi / 12) - cos (3 / 10 * 2 * pi / 12))\<^sup>2
      + (sin (115 / 10 * 2 * pi / 12) - sin (3 / 10 * 2 * pi / 12))\<^sup>2 \<le> (3::real)\<^sup>2"
    by (simp add: power2_commute)
  then show ?thesis
    by (simp add: query_ball_point_def sq_dist_def build_search_points_def
        build_search_point_single_def clock_to_trig_def Let_def cfg later_w_def earlier_w_def
        ex_rows)
qed

lemma scan_wrap:
  "scan_candidates query_ball_point [later_w] [earlier_w] 7 = Inr ([[17 / 100]], [1])"
proof -
  have fin: "finite_point (build_search_point_single later_w)"
    "list_all finite_point (build_search_points [earlier_w])"
    by (simp_all add: finite_point_single build_search_points_def later_w_def earlier_w_def
        ex_rows)
  have step: "candidate_step [later_w] [earlier_w] 7 0 0 ([[1000000]], [0])
      = ([[17 / 100]], [1])"
    by (simp add: candidate_step_def Let_def cfg clock_distance_def py_fmod_def
        types_compatible_def compute_similarity_def safe_diff_def later_w_def earlier_w_def
        ex_rows)
  show ?thesis
    using fin query_wrap step
    by (simp add: scan_candidates_def KDTree_def query_ball_def Let_def LARGE_COST_def)
qed

lemma lsa_wrap: "linear_sum_assignment [[17 / 100]] = [(0, 0)]"
  by (simp add: linear_sum_assignment_def Let_def)

lemma make_match_wrap:
  "make_match [later_w] [earlier_w] 7 [[17 / 100]] [1] 0 0 = Inr match_w"
  by (simp add: make_match_def Let_def compute_confidence_def classify_confidence_def
      build_match_record_def annual_rate_def safe_sub_def later_w_def earlier_w_def ex_rows
      cfg py_int_def py_round_def round_half_even_def match_w_def)

lemma match_wrap_ex:
  "match_anomalies query_ball_point linear_sum_assignment [later_weld, later_w] [earlier_w] 7
     = Inr result_wrap"
proof -
  have "assign_loop [later_w] [earlier_w] 7 [[17 / 100]] [1] [(0, 0)] ([], {}, {})
      = Inr ([match_w], {0}, {0})"
    using make_match_wrap by (simp add: cfg)
  moreover have "compute_match_stats [match_w] [] [] = stats result_wrap"
    by (simp add: compute_match_stats_def Let_def match_w_def mean_def py_round_def
        round_half_even_def cfg result_wrap_def)
  ultimately show ?thesis
    by (simp add: match_anomalies_def anoms_wrap scan_wrap lsa_wrap Let_def result_wrap_def)
qed

lemma anoms_nan:
  "get_anomalies [later_a] = [later_a]" "get_anomalies [earlier_nan] = [earlier_nan]"
  "get_anomalies [later_nan] = [later_nan]" "get_anomalies [later_dent] = []"
  by (simp_all add: get_anomalies_def later_nan_def earlier_nan_def later_dent_def ex_rows)

lemma anoms_empty: "get_anomalies [] = []"
  by (simp add: get_anomalies_def)
subsection \<open>The shape of a result of the matcher\<close>

text \<open>
  A result of the matcher comes with the list \<open>K\<close> of the solver's pairs that were kept:
  the matches are the records of these pairs, in order, the new and the missing anomalies
  are the anomalies at the positions that occur in no pair, no position occurs in two
  pairs, and each pair passed the three gates with a similarity above the threshold.
\<close>

lemma match_anomalies_pairs:
  assumes "lsa_contract solver"
    and "match_anomalies query solver rl re years = Inr res"
  shows "\<exists>C cnt K.
     list_all2
       (\<lambda>rec (i, j). make_match (get_anomalies rl) (get_anomalies re) years C cnt i j = Inr rec)
       (matches res) K
     \<and> new_anomalies res =
           map (\<lambda>i. get_anomalies rl ! i)
             (filter (\<lambda>i. i \<notin> fst ` set K) [0..<length (get_anomalies rl)])
     \<and> missing_anomalies res =
           map (\<lambda>i. get_anomalies re ! i)
             (filter (\<lambda>i. i \<notin> snd ` set K) [0..<length (get_anomalies re)])
     \<and> distinct (map fst K) \<and> distinct (map snd K)
     \<and> (\<forall>(i, j) \<in> set K.
           i < length (get_anomalies rl) \<and> j < length (get_anomalies re) \<and>
           passes_gates (get_anomalies rl ! i) (get_anomalies re ! j) \<and>
           \<not> isnan (corrected_distance (get_anomalies rl ! i)) \<and>
           \<not> isnan (corrected_distance (get_anomalies re ! j)) \<and>
           C ! i ! j = 1 - compute_similarity (get_anomalies rl ! i) (get_anomalies re ! j) years \<and>
           LOW_CONFIDENCE < compute_similarity (get_anomalies rl ! i) (get_anomalies re ! j) years)"
proof (cases "length (get_anomalies rl) = 0 \<or> length (get_anomalies re) = 0")
  case True
  let ?L = "get_anomalies rl" and ?E = "get_anomalies re"
  from True assms(2) have "res = \<lparr>matches = [], new_anomalies = ?L, missing_anomalies = ?E,
        stats = \<lparr>total_matches = 0,
                          stat_new_anomalies = None, stat_missing_anomalies = None,
                          high_confidence = None, medium_confidence = None,
                          low_confidence = None, avg_similarity = None,
                          avg_confidence = None, avg_depth_growth_rate = None,
                          negative_growth_count = None, high_growth_count = None\<rparr>\<rparr>"
    by (auto simp: match_anomalies_def Let_def)
  then show ?thesis
    by (intro exI[of _ "[]"]) (simp add: map_nth)
next
  case False
  let ?L = "get_anomalies rl" and ?E = "get_anomalies re"
  from assms(2) False obtain C cnt where sc: "scan_candidates query ?L ?E years = Inr (C, cnt)"
    by (auto simp: match_anomalies_def Let_def split: sum.splits)
  from assms(2) False sc obtain acc ml me where
    loop: "assign_loop ?L ?E years C cnt (solver C) ([], {}, {}) = Inr (acc, ml, me)"
    and res: "res = \<lparr>matches = acc,
        new_anomalies = map (\<lambda>i. ?L ! i) (filter (\<lambda>i. i \<notin> ml) [0..<length ?L]),
        missing_anomalies = map (\<lambda>i. ?E ! i) (filter (\<lambda>i. i \<notin> me) [0..<length ?E]),
        stats = compute_match_stats acc
           (map (\<lambda>i. ?L ! i) (filter (\<lambda>i. i \<notin> ml) [0..<length ?L]))
           (map (\<lambda>i. ?E ! i) (filter (\<lambda>i. i \<notin> me) [0..<length ?E]))\<rparr>"
    by (auto simp: match_anomalies_def Let_def split: sum.splits prod.splits)
  note inv = scan_candidates_inv[OF sc]
  let ?K = "kept_pairs C (solver C)"
  from inv(1) have rect: "rectangular C (length ?L) (length ?E)" by (simp add: cost_inv_def)
  from assms(1) rect have s: "distinct (map fst (solver C))" "distinct (map snd (solver C))"
    "\<forall>(i, j) \<in> set (solver C). i < length ?L \<and> j < length ?E"
    unfolding lsa_contract_def by blast+
  have k1: "distinct (map fst ?K)"
    unfolding kept_pairs_def using s(1) by (rule distinct_map_filter)
  have k2: "distinct (map snd ?K)"
    unfolding kept_pairs_def using s(2) by (rule distinct_map_filter)
  have k3: "\<forall>(i, j) \<in> set ?K.
           i < length ?L \<and> j < length ?E \<and> passes_gates (?L ! i) (?E ! j) \<and>
           \<not> isnan (corrected_distance (?L ! i)) \<and> \<not> isnan (corrected_distance (?E ! j)) \<and>
           C ! i ! j = 1 - compute_similarity (?L ! i) (?E ! j) years \<and>
           LOW_CONFIDENCE < compute_similarity (?L ! i) (?E ! j) years"
  proof (clarify)
    fix i j assume "(i, j) \<in> set ?K"
    then have mem: "(i, j) \<in> set (solver C)" and c: "\<not> 1 - LOW_CONFIDENCE \<le> C ! i ! j"
      by (auto simp: kept_pairs_def)
    from mem s(3) have b: "i < length ?L" "j < length ?E" by auto
    from b inv(2,3) have n: "\<not> isnan (corrected_distance (?L ! i))"
      "\<not> isnan (corrected_distance (?E ! j))" by simp_all
    from c have "C ! i ! j \<noteq> LARGE_COST"
      by (auto simp: LARGE_COST_def LOW_CONFIDENCE_def)
    with inv(1) b have g: "passes_gates (?L ! i) (?E ! j)"
      and v: "C ! i ! j = 1 - compute_similarity (?L ! i) (?E ! j) years"
      unfolding cost_inv_def by blast+
    from c v have "LOW_CONFIDENCE < compute_similarity (?L ! i) (?E ! j) years" by simp
    with b g v n show "i < length ?L \<and> j < length ?E \<and> passes_gates (?L ! i) (?E ! j) \<and>
           \<not> isnan (corrected_distance (?L ! i)) \<and> \<not> isnan (corrected_distance (?E ! j)) \<and>
           C ! i ! j = 1 - compute_similarity (?L ! i) (?E ! j) years \<and>
           LOW_CONFIDENCE < compute_similarity (?L ! i) (?E ! j) years" by simp
  qed
  from assign_loop_result[OF loop] have
    "list_all2 (\<lambda>rec (i, j). make_match ?L ?E years C cnt i j = Inr rec) (matches res) ?K
     \<and> new_anomalies res = map (\<lambda>i. ?L ! i) (filter (\<lambda>i. i \<notin> fst ` set ?K) [0..<length ?L])
     \<and> missing_anomalies res = map (\<lambda>i. ?E ! i) (filter (\<lambda>i. i \<notin> snd ` set ?K) [0..<length ?E])"
    unfolding res by auto
  with k1 k2 k3 show ?thesis by blast
qed

subsection \<open>One-to-one pairing, gates and the empty case\<close>

lemma make_match_fields:
  "make_match L E years C cnt i j = Inr rec \<Longrightarrow>
     later_row_idx rec = source_row_idx (L ! i) \<and> earlier_row_idx rec = source_row_idx (E ! j) \<and>
     later_clock rec = fl_round (clock_hours (L ! i)) 2 \<and>
     earlier_clock rec = fl_round (clock_hours (E ! j)) 2 \<and>
     later_distance rec = fl_round (corrected_distance (L ! i)) 2 \<and>
     earlier_distance rec = fl_round (corrected_distance (E ! j)) 2"
  unfolding make_match_def Let_def by (drule build_match_record_fields) simp

lemma matches_row_idx:
  "list_all2 (\<lambda>rec (i, j). make_match L E years C cnt i j = Inr rec) recs K \<Longrightarrow>
     map later_row_idx recs = map (\<lambda>p. source_row_idx (L ! fst p)) K \<and>
     map earlier_row_idx recs = map (\<lambda>p. source_row_idx (E ! snd p)) K"
  by (induction recs K rule: list_all2_induct) (auto dest: make_match_fields)

lemma matches_pair:
  assumes "list_all2 (\<lambda>rec (i, j). make_match L E years C cnt i j = Inr rec) recs K"
    and "rec \<in> set recs"
  shows "\<exists>(i, j) \<in> set K. make_match L E years C cnt i j = Inr rec"
  using assms by (induction recs K rule: list_all2_induct) auto

text \<open>A list with pairwise distinct keys, split by a set of positions.\<close>

lemma split_by_positions:
  fixes xs :: "'a list" and f :: "'a \<Rightarrow> 'b"
  assumes d: "distinct (map f xs)" and dk: "distinct ks" and b: "\<forall>k \<in> set ks. k < length xs"
  shows "distinct (map (\<lambda>k. f (xs ! k)) ks)"
    and "distinct (map f (map (\<lambda>i. xs ! i) (filter (\<lambda>i. i \<notin> set ks) [0..<length xs])))"
    and "set (map (\<lambda>k. f (xs ! k)) ks)
           \<union> set (map f (map (\<lambda>i. xs ! i) (filter (\<lambda>i. i \<notin> set ks) [0..<length xs])))
         = set (map f xs)"
    and "set (map (\<lambda>k. f (xs ! k)) ks)
           \<inter> set (map f (map (\<lambda>i. xs ! i) (filter (\<lambda>i. i \<notin> set ks) [0..<length xs])))
         = {}"
proof -
  let ?g = "\<lambda>k. f (xs ! k)"
  have inj: "inj_on ?g {..<length xs}"
  proof (rule inj_onI)
    fix a c assume "a \<in> {..<length xs}" "c \<in> {..<length xs}" "f (xs ! a) = f (xs ! c)"
    then have l: "a < length (map f xs)" "c < length (map f xs)"
      and e: "map f xs ! a = map f xs ! c"
      by auto
    from nth_eq_iff_index_eq[OF d l] e show "a = c" by blast
  qed
  have "set xs = (\<lambda>k. xs ! k) ` {..<length xs}"
    by (auto simp: in_set_conv_nth)
  then have all: "set (map f xs) = ?g ` {..<length xs}"
    by (simp add: image_image)
  have ks: "set ks \<subseteq> {..<length xs}" using b by auto
  let ?rest = "filter (\<lambda>i. i \<notin> set ks) [0..<length xs]"
  have rest: "set ?rest = {..<length xs} - set ks" by auto
  have m: "map f (map (\<lambda>i. xs ! i) ?rest) = map ?g ?rest" by simp
  have sk: "set (map ?g ks) = ?g ` set ks" by simp
  have sr: "set (map ?g ?rest) = ?g ` ({..<length xs} - set ks)"
    by (simp only: set_map rest)
  show "distinct (map ?g ks)"
    using dk inj ks by (auto simp: distinct_map intro: inj_on_subset)
  show "distinct (map f (map (\<lambda>i. xs ! i) ?rest))"
    unfolding m using inj by (auto simp: distinct_map intro: inj_on_subset)
  show "set (map ?g ks) \<union> set (map f (map (\<lambda>i. xs ! i) ?rest)) = set (map f xs)"
    unfolding m sk sr all using ks by blast
  have "?g ` set ks \<inter> ?g ` ({..<length xs} - set ks) = {}"
    using inj ks by (auto dest: inj_onD)
  then show "set (map ?g ks) \<inter> set (map f (map (\<lambda>i. xs ! i) ?rest)) = {}"
    unfolding m sk sr .
qed

text \<open>
  When a call of the matcher returns and when it raises. With anomalies on both sides, the
  call raises \<open>ValueError\<close> as soon as an anomaly of either run has no corrected distance: the
  tree refuses the point. Otherwise it returns a result whenever the years between the runs
  are not 0; with 0 years the first kept pair raises \<open>ZeroDivisionError\<close> in its growth
  rate.
\<close>

lemma build_match_record_total:
  "years \<noteq> 0 \<Longrightarrow> \<exists>rec. build_match_record a_l a_e sim conf lab years = Inr rec"
  by (simp add: build_match_record_def Let_def annual_rate_def split: pyfloat.splits)

lemma assign_loop_total:
  "years \<noteq> 0 \<Longrightarrow> \<exists>r. assign_loop L E years C cnt asg st = Inr r"
proof (induction asg arbitrary: st)
  case Nil
  show ?case by (cases st) auto
next
  case (Cons p asg)
  obtain i j where p: "p = (i, j)" by (cases p)
  obtain acc ml me where st: "st = (acc, ml, me)" by (cases st) auto
  from Cons.prems obtain rec where "make_match L E years C cnt i j = Inr rec"
    unfolding make_match_def Let_def using build_match_record_total by blast
  with Cons.IH[OF Cons.prems] p st show ?case by simp
qed

lemma match_anomalies_total:
  assumes "years \<noteq> 0"
    and "\<forall>a \<in> set (get_anomalies run_later). \<not> isnan (corrected_distance a)"
    and "\<forall>a \<in> set (get_anomalies run_earlier). \<not> isnan (corrected_distance a)"
  shows "\<exists>res. match_anomalies query solver run_later run_earlier years = Inr res"
proof -
  let ?L = "get_anomalies run_later" and ?E = "get_anomalies run_earlier"
  from scan_candidates_total[OF assms(2,3)] obtain C cnt where
    sc: "scan_candidates query ?L ?E years = Inr (C, cnt)" by blast
  from assign_loop_total[OF assms(1)] obtain r where
    "assign_loop ?L ?E years C cnt (solver C) ([], {}, {}) = Inr r" by blast
  with sc show ?thesis
    by (cases r) (auto simp: match_anomalies_def Let_def)
qed

lemma match_anomalies_aligned_total:
  assumes "years \<noteq> 0" and "aligned run_later" and "aligned run_earlier"
  shows "\<exists>res. match_anomalies query solver run_later run_earlier years = Inr res"
  using assms(2,3)
  by (intro match_anomalies_total[OF assms(1)]) (auto simp: aligned_def get_anomalies_def)

lemma match_anomalies_nan_distance:
  assumes "get_anomalies run_later \<noteq> []" and "get_anomalies run_earlier \<noteq> []"
    and "\<exists>a \<in> set (get_anomalies run_later) \<union> set (get_anomalies run_earlier).
           isnan (corrected_distance a)"
  shows "match_anomalies query solver run_later run_earlier years = Inl ValueError"
proof -
  let ?L = "get_anomalies run_later" and ?E = "get_anomalies run_earlier"
  have "scan_candidates query ?L ?E years = Inl ValueError"
  proof (cases "scan_candidates query ?L ?E years")
    case (Inl e)
    then show ?thesis using scan_candidates_error[OF Inl] by simp
  next
    case (Inr st)
    obtain C cnt where "st = (C, cnt)" by (cases st)
    with Inr have "scan_candidates query ?L ?E years = Inr (C, cnt)" by simp
    from scan_candidates_inv(2,3)[OF this] assms(3) show ?thesis by blast
  qed
  with assms(1,2) show ?thesis by (simp add: match_anomalies_def Let_def)
qed

lemma get_anomalies_row_idx:
  "set (map source_row_idx (get_anomalies run))
     = source_row_idx ` {r \<in> set run. is_anomaly r \<and> \<not> isnan (depth_pct r)
                                     \<and> \<not> isnan (log_distance_ft r)}"
  by (auto simp: get_anomalies_def)

text \<open>
  Claim C1, as stated: the matches, the new and the missing anomalies partition the anomaly
  sets of both runs. The matcher works on the anomalies that carry a depth and a distance
  reading only. The 2022 run below has a dent without a depth reading in row 3: it is an
  anomaly of the run, and row 3 is neither in a match nor among the new anomalies.
\<close>

theorem anomaly_without_depth_counterexample:
  "later_dent \<in> set run_2022_dent \<and> is_anomaly later_dent
   \<and> match_anomalies query_ball_point linear_sum_assignment run_2022_dent run_2015 7
       = Inr result_2015_2022
   \<and> source_row_idx later_dent \<notin> set (map later_row_idx (matches result_2015_2022))
   \<and> source_row_idx later_dent \<notin> set (map source_row_idx (new_anomalies result_2015_2022))
   \<and> later_dent \<notin> set (new_anomalies result_2015_2022)"
  using match_dent_ex
  by (simp add: run_2022_dent_def later_dent_def result_2015_2022_def match_aa_def ex_rows)

text \<open>
  Claim C1, amended: the result of \<open>match_anomalies\<close> is a strict one-to-one partial pairing
  that partitions, in both runs, the rows that are flagged as anomalies and have both a
  depth and a distance reading. With row indices that identify the rows of a run, no
  later-run and no earlier-run row index occurs in two match rows, and the row indices of
  those rows of the later run are the disjoint union of the row indices in the matches and
  in \<open>new_anomalies\<close>; likewise for the earlier run with \<open>missing_anomalies\<close>.
\<close>

theorem match_anomalies_one_to_one_partition:
  assumes "kdtree_contract query" and "lsa_contract solver"
    and "distinct (map source_row_idx run_later)"
    and "distinct (map source_row_idx run_earlier)"
    and "match_anomalies query solver run_later run_earlier years = Inr res"
  shows "distinct (map later_row_idx (matches res))
     \<and> distinct (map earlier_row_idx (matches res))
     \<and> distinct (map source_row_idx (new_anomalies res))
     \<and> distinct (map source_row_idx (missing_anomalies res))
     \<and> set (map later_row_idx (matches res)) \<union> set (map source_row_idx (new_anomalies res))
         = source_row_idx ` {r \<in> set run_later. is_anomaly r \<and> \<not> isnan (depth_pct r) \<and> \<not> isnan (log_distance_ft r)}
     \<and> set (map later_row_idx (matches res)) \<inter> set (map source_row_idx (new_anomalies res)) = {}
     \<and> set (map earlier_row_idx (matches res)) \<union> set (map source_row_idx (missing_anomalies res))
         = source_row_idx ` {r \<in> set run_earlier. is_anomaly r \<and> \<not> isnan (depth_pct r) \<and> \<not> isnan (log_distance_ft r)}
     \<and> set (map earlier_row_idx (matches res)) \<inter> set (map source_row_idx (missing_anomalies res)) = {}"
proof -
  let ?L = "get_anomalies run_later" and ?E = "get_anomalies run_earlier"
  from match_anomalies_pairs[OF assms(2,5)] obtain C cnt K where
    rel: "list_all2 (\<lambda>rec (i, j). make_match ?L ?E years C cnt i j = Inr rec) (matches res) K"
    and nw0: "new_anomalies res =
      map (\<lambda>i. ?L ! i) (filter (\<lambda>i. i \<notin> fst ` set K) [0..<length ?L])"
    and ms0: "missing_anomalies res =
      map (\<lambda>i. ?E ! i) (filter (\<lambda>i. i \<notin> snd ` set K) [0..<length ?E])"
    and k1: "distinct (map fst K)" and k2: "distinct (map snd K)"
    and k3: "\<forall>(i, j) \<in> set K. i < length ?L \<and> j < length ?E"
    by (auto simp: case_prod_beta)
  have dL: "distinct (map source_row_idx ?L)"
    unfolding get_anomalies_def using assms(3) by (rule distinct_map_filter)
  have dE: "distinct (map source_row_idx ?E)"
    unfolding get_anomalies_def using assms(4) by (rule distinct_map_filter)
  from matches_row_idx[OF rel]
  have ml: "map later_row_idx (matches res) = map (\<lambda>k. source_row_idx (?L ! k)) (map fst K)"
    and me: "map earlier_row_idx (matches res) = map (\<lambda>k. source_row_idx (?E ! k)) (map snd K)"
    by (simp_all add: comp_def)
  have bL: "\<forall>k \<in> set (map fst K). k < length ?L" using k3 by auto
  have bE: "\<forall>k \<in> set (map snd K). k < length ?E" using k3 by auto
  have nw: "new_anomalies res =
      map (\<lambda>i. ?L ! i) (filter (\<lambda>i. i \<notin> set (map fst K)) [0..<length ?L])"
    using nw0 by simp
  have ms: "missing_anomalies res =
      map (\<lambda>i. ?E ! i) (filter (\<lambda>i. i \<notin> set (map snd K)) [0..<length ?E])"
    using ms0 by simp
  note sL = split_by_positions[OF dL k1 bL]
  note sE = split_by_positions[OF dE k2 bE]
  show ?thesis
    unfolding ml me nw ms get_anomalies_row_idx[symmetric] using sL sE by blast
qed

theorem match_anomalies_one_to_one_partition_witness:
  "match_anomalies query_ball_point linear_sum_assignment run_2022_dent run_2015 7
     = Inr result_2015_2022
   \<and> (distinct (map later_row_idx (matches result_2015_2022))
     \<and> distinct (map earlier_row_idx (matches result_2015_2022))
     \<and> distinct (map source_row_idx (new_anomalies result_2015_2022))
     \<and> distinct (map source_row_idx (missing_anomalies result_2015_2022))
     \<and> set (map later_row_idx (matches result_2015_2022))
           \<union> set (map source_row_idx (new_anomalies result_2015_2022))
         = source_row_idx ` {r \<in> set run_2022_dent. is_anomaly r \<and> \<not> isnan (depth_pct r)
                                                   \<and> \<not> isnan (log_distance_ft r)}
     \<and> set (map later_row_idx (matches result_2015_2022))
           \<inter> set (map source_row_idx (new_anomalies result_2015_2022)) = {}
     \<and> set (map earlier_row_idx (matches result_2015_2022))
           \<union> set (map source_row_idx (missing_anomalies result_2015_2022))
         = source_row_idx ` {r \<in> set run_2015. is_anomaly r \<and> \<not> isnan (depth_pct r)
                                              \<and> \<not> isnan (log_distance_ft r)}
     \<and> set (map earlier_row_idx (matches result_2015_2022))
           \<inter> set (map source_row_idx (missing_anomalies result_2015_2022)) = {})"
proof -
  have d1: "distinct (map source_row_idx run_2022_dent)"
    by (simp add: run_2022_dent_def later_dent_def ex_rows)
  have d2: "distinct (map source_row_idx run_2015)"
    by (simp add: run_2015_def ex_rows)
  from match_dent_ex
    match_anomalies_one_to_one_partition[OF kdtree_contract_query_ball_point
      lsa_contract_linear_sum_assignment d1 d2 match_dent_ex]
  show ?thesis by (rule conjI)
qed

text \<open>
  Claim C2: every row of the matches output pairs two anomalies whose corrected distances
  differ by at most 3.0 ft and whose clock positions are at most 1.0 hour apart on the
  circle: both anomalies have a corrected distance and a clock position, and the two clock
  positions differ by at most 1 after a whole number of turns of 12 hours.
\<close>

theorem match_anomalies_gates_hold:
  assumes "kdtree_contract query" and "lsa_contract solver"
    and "match_anomalies query solver run_later run_earlier years = Inr res"
  shows "\<forall>rec \<in> set (matches res).
     \<exists>a_l \<in> set (get_anomalies run_later). \<exists>a_e \<in> set (get_anomalies run_earlier).
     \<exists>dl de hl he.
       later_row_idx rec = source_row_idx a_l \<and> earlier_row_idx rec = source_row_idx a_e \<and>
       later_distance rec = Fl (py_round dl 2) \<and> earlier_distance rec = Fl (py_round de 2) \<and>
       corrected_distance a_l = Fl dl \<and> corrected_distance a_e = Fl de \<and>
       \<bar>dl - de\<bar> \<le> 3 \<and>
       clock_distance (clock_hours a_l) (clock_hours a_e) \<le> 1 \<and>
       clock_hours a_l = Fl hl \<and> clock_hours a_e = Fl he \<and>
       (\<exists>k::int. \<bar>hl - he - 12 * of_int k\<bar> \<le> 1)"
proof
  fix rec assume rec: "rec \<in> set (matches res)"
  let ?L = "get_anomalies run_later" and ?E = "get_anomalies run_earlier"
  from match_anomalies_pairs[OF assms(2,3)] obtain C cnt K where
    rel: "list_all2 (\<lambda>rec (i, j). make_match ?L ?E years C cnt i j = Inr rec) (matches res) K"
    and k3: "\<forall>(i, j) \<in> set K. i < length ?L \<and> j < length ?E \<and>
           passes_gates (?L ! i) (?E ! j) \<and>
           \<not> isnan (corrected_distance (?L ! i)) \<and> \<not> isnan (corrected_distance (?E ! j))"
    by (auto simp: case_prod_beta)
  from matches_pair[OF rel rec] obtain i j where ij: "(i, j) \<in> set K"
    and mk: "make_match ?L ?E years C cnt i j = Inr rec"
    by auto
  from k3 ij have b: "i < length ?L" "j < length ?E"
    and g: "passes_gates (?L ! i) (?E ! j)"
    and n: "\<not> isnan (corrected_distance (?L ! i))" "\<not> isnan (corrected_distance (?E ! j))"
    by auto
  from b have inL: "?L ! i \<in> set ?L" and inE: "?E ! j \<in> set ?E" by simp_all
  from n obtain dl where dl: "corrected_distance (?L ! i) = Fl dl"
    by (cases "corrected_distance (?L ! i)") auto
  from n obtain de where de: "corrected_distance (?E ! j) = Fl de"
    by (cases "corrected_distance (?E ! j)") auto
  from g dl de have d3: "\<bar>dl - de\<bar> \<le> 3"
    by (simp add: passes_gates_def DISTANCE_TOLERANCE_FT_def)
  from g have c1: "clock_distance (clock_hours (?L ! i)) (clock_hours (?E ! j)) \<le> 1"
    by (simp add: passes_gates_def CLOCK_TOLERANCE_HOURS_def)
  then have "clock_distance (clock_hours (?L ! i)) (clock_hours (?E ! j)) \<noteq> 6" by simp
  with clock_distance_nan
  have "\<not> isnan (clock_hours (?L ! i))" "\<not> isnan (clock_hours (?E ! j))" by blast+
  then obtain hl he where hl: "clock_hours (?L ! i) = Fl hl" and he: "clock_hours (?E ! j) = Fl he"
    by (cases "clock_hours (?L ! i)"; cases "clock_hours (?E ! j)") auto
  from clock_distance_circular[of hl he] c1 hl he
  have turn: "\<exists>k::int. \<bar>hl - he - 12 * of_int k\<bar> \<le> 1" by auto
  from make_match_fields[OF mk] dl de
  have f: "later_row_idx rec = source_row_idx (?L ! i)"
    "earlier_row_idx rec = source_row_idx (?E ! j)"
    "later_distance rec = Fl (py_round dl 2)" "earlier_distance rec = Fl (py_round de 2)"
    by simp_all
  from inL inE f dl de d3 c1 hl he turn
  show "\<exists>a_l \<in> set ?L. \<exists>a_e \<in> set ?E. \<exists>dl de hl he.
       later_row_idx rec = source_row_idx a_l \<and> earlier_row_idx rec = source_row_idx a_e \<and>
       later_distance rec = Fl (py_round dl 2) \<and> earlier_distance rec = Fl (py_round de 2) \<and>
       corrected_distance a_l = Fl dl \<and> corrected_distance a_e = Fl de \<and>
       \<bar>dl - de\<bar> \<le> 3 \<and>
       clock_distance (clock_hours a_l) (clock_hours a_e) \<le> 1 \<and>
       clock_hours a_l = Fl hl \<and> clock_hours a_e = Fl he \<and>
       (\<exists>k::int. \<bar>hl - he - 12 * of_int k\<bar> \<le> 1)"
    by blast
qed

text \<open>
  The theorem at the pair across the 12 o'clock position: the match pairs the anomalies at
  2001 ft, 0.3 h and at 2000 ft, 11.5 h, one foot and, after one turn, 0.8 h apart.
\<close>

theorem match_anomalies_gates_hold_witness:
  "match_anomalies query_ball_point linear_sum_assignment [later_weld, later_w] [earlier_w] 7
     = Inr result_wrap
   \<and> matches result_wrap = [match_w]
   \<and> later_row_idx match_w = source_row_idx later_w
   \<and> earlier_row_idx match_w = source_row_idx earlier_w
   \<and> corrected_distance later_w = Fl 2001 \<and> corrected_distance earlier_w = Fl 2000
   \<and> clock_hours later_w = Fl (3 / 10) \<and> clock_hours earlier_w = Fl (115 / 10)
   \<and> \<bar>2001 - 2000\<bar> \<le> (3::real)
   \<and> clock_distance (Fl (3 / 10)) (Fl (115 / 10)) \<le> 1
   \<and> (\<exists>k::int. \<bar>3 / 10 - 115 / 10 - 12 * of_int k\<bar> \<le> (1::real))"
proof -
  have m: "matches result_wrap = [match_w]" by (simp add: result_wrap_def)
  then have "match_w \<in> set (matches result_wrap)" by simp
  with match_anomalies_gates_hold[OF kdtree_contract_query_ball_point
      lsa_contract_linear_sum_assignment match_wrap_ex]
  have "\<exists>a_l \<in> set (get_anomalies [later_weld, later_w]). \<exists>a_e \<in> set (get_anomalies [earlier_w]).
     \<exists>dl de hl he.
       later_row_idx match_w = source_row_idx a_l \<and> earlier_row_idx match_w = source_row_idx a_e \<and>
       later_distance match_w = Fl (py_round dl 2) \<and> earlier_distance match_w = Fl (py_round de 2) \<and>
       corrected_distance a_l = Fl dl \<and> corrected_distance a_e = Fl de \<and>
       \<bar>dl - de\<bar> \<le> 3 \<and>
       clock_distance (clock_hours a_l) (clock_hours a_e) \<le> 1 \<and>
       clock_hours a_l = Fl hl \<and> clock_hours a_e = Fl he \<and>
       (\<exists>k::int. \<bar>hl - he - 12 * of_int k\<bar> \<le> 1)"
    by (rule bspec)
  then obtain a_l a_e dl de hl he where
    mem: "a_l \<in> set (get_anomalies [later_weld, later_w])"
      "a_e \<in> set (get_anomalies [earlier_w])"
    and f0: "later_row_idx match_w = source_row_idx a_l"
       "earlier_row_idx match_w = source_row_idx a_e"
       "corrected_distance a_l = Fl dl" "corrected_distance a_e = Fl de"
       "\<bar>dl - de\<bar> \<le> 3"
       "clock_distance (clock_hours a_l) (clock_hours a_e) \<le> 1"
       "clock_hours a_l = Fl hl" "clock_hours a_e = Fl he"
       "\<exists>k::int. \<bar>hl - he - 12 * of_int k\<bar> \<le> 1"
    by blast
  from mem have "a_l = later_w" "a_e = earlier_w" by (simp_all add: anoms_wrap)
  with f0 have
    f: "later_row_idx match_w = source_row_idx later_w"
       "earlier_row_idx match_w = source_row_idx earlier_w"
       "corrected_distance later_w = Fl dl" "corrected_distance earlier_w = Fl de"
       "\<bar>dl - de\<bar> \<le> 3"
       "clock_distance (clock_hours later_w) (clock_hours earlier_w) \<le> 1"
       "clock_hours later_w = Fl hl" "clock_hours earlier_w = Fl he"
       "\<exists>k::int. \<bar>hl - he - 12 * of_int k\<bar> \<le> 1"
    by simp_all
  have v: "corrected_distance later_w = Fl 2001" "corrected_distance earlier_w = Fl 2000"
    "clock_hours later_w = Fl (3 / 10)" "clock_hours earlier_w = Fl (115 / 10)"
    by (simp_all add: later_w_def earlier_w_def ex_rows)
  from f(3,4) v(1,2) have d: "dl = 2001" "de = 2000" by simp_all
  from f(7,8) v(3,4) have h: "hl = 3 / 10" "he = 115 / 10" by simp_all
  from f(5) d have "\<bar>2001 - 2000\<bar> \<le> (3::real)" by simp
  moreover from f(6) v(3,4) have "clock_distance (Fl (3 / 10)) (Fl (115 / 10)) \<le> 1" by simp
  moreover from f(9) h have "\<exists>k::int. \<bar>3 / 10 - 115 / 10 - 12 * of_int k\<bar> \<le> (1::real)"
    by simp
  ultimately show ?thesis using match_wrap_ex m f(1,2) v by blast
qed

text \<open>
  Claim C3: a pair the solver chose is kept exactly when its cost is below
  \<open>1 - LOW_CONFIDENCE\<close>. A chosen pair passed the gates, so its cost is one minus its
  similarity, and the pairs kept are those of similarity strictly above 0.40
  (\<open>match_anomalies_pairs\<close>). The pair below has similarity exactly 0.40: its cost is 0.60,
  the test \<open>cost \<ge> 0.60\<close> holds and the pair is discarded, the later anomaly reported
  as new and the earlier one as missing.
\<close>

theorem similarity_at_threshold_discarded:
  "compute_similarity later_c earlier_a 7 = LOW_CONFIDENCE
   \<and> passes_gates later_c earlier_a
   \<and> scan_candidates query_ball_point [later_c] [earlier_a] 7
       = Inr ([[1 - LOW_CONFIDENCE]], [1])
   \<and> linear_sum_assignment [[1 - LOW_CONFIDENCE]] = [(0, 0)]
   \<and> match_anomalies query_ball_point linear_sum_assignment [later_c] [earlier_a] 7
       = Inr \<lparr>matches = [], new_anomalies = [later_c], missing_anomalies = [earlier_a],
              stats = \<lparr>total_matches = 0, stat_new_anomalies = Some 1,
                        stat_missing_anomalies = Some 1,
                        high_confidence = None, medium_confidence = None,
                        low_confidence = None, avg_similarity = None,
                        avg_confidence = None, avg_depth_growth_rate = None,
                        negative_growth_count = None, high_growth_count = None\<rparr>\<rparr>"
proof (intro conjI)
  show "compute_similarity later_c earlier_a 7 = LOW_CONFIDENCE"
    by (simp add: sim_ca LOW_CONFIDENCE_def)
  show "passes_gates later_c earlier_a"
    by (simp add: passes_gates_def later_c_def ex_rows cfg clock_distance_def py_fmod_def
        types_compatible_def)
  show "scan_candidates query_ball_point [later_c] [earlier_a] 7
       = Inr ([[1 - LOW_CONFIDENCE]], [1])"
    by (simp add: scan_c LOW_CONFIDENCE_def)
  show "linear_sum_assignment [[1 - LOW_CONFIDENCE]] = [(0, 0)]"
    by (simp add: linear_sum_assignment_def Let_def)
  show "match_anomalies query_ball_point linear_sum_assignment [later_c] [earlier_a] 7
       = Inr \<lparr>matches = [], new_anomalies = [later_c], missing_anomalies = [earlier_a],
              stats = \<lparr>total_matches = 0, stat_new_anomalies = Some 1,
                        stat_missing_anomalies = Some 1,
                        high_confidence = None, medium_confidence = None,
                        low_confidence = None, avg_similarity = None,
                        avg_confidence = None, avg_depth_growth_rate = None,
                        negative_growth_count = None, high_growth_count = None\<rparr>\<rparr>"
    by (simp add: match_anomalies_def anoms_c scan_c lsa_c Let_def cfg compute_match_stats_def)
qed

text \<open>
  Claim C9, as stated: \<open>match_anomalies\<close> never fails on data content, and with zero
  anomalies in either run it returns the entire anomaly set of the later run as new. With
  an anomaly on each side the call raises \<open>ValueError\<close> when an anomaly has a distance reading
  but no corrected distance, on the earlier side when the tree is built and on the later
  side when it is queried. And a run whose only anomaly is a dent without a depth reading
  counts as a run without anomalies: against an empty earlier run the dent is not
  reported as new.
\<close>

theorem match_anomalies_raises_counterexample:
  "match_anomalies query_ball_point linear_sum_assignment [later_a] [earlier_nan] 7
     = Inl ValueError
   \<and> match_anomalies query_ball_point linear_sum_assignment [later_nan] [earlier_a] 7
     = Inl ValueError
   \<and> is_anomaly later_dent
   \<and> match_anomalies query_ball_point linear_sum_assignment [later_dent] [] 7 =
     Inr \<lparr>matches = [], new_anomalies = [], missing_anomalies = [],
          stats = \<lparr>total_matches = 0,
                    stat_new_anomalies = None, stat_missing_anomalies = None,
                    high_confidence = None, medium_confidence = None,
                    low_confidence = None, avg_similarity = None,
                    avg_confidence = None, avg_depth_growth_rate = None,
                    negative_growth_count = None, high_growth_count = None\<rparr>\<rparr>"
proof (intro conjI)
  have nl: "get_anomalies [later_a] \<noteq> []" "get_anomalies [later_nan] \<noteq> []"
    and ne: "get_anomalies [earlier_nan] \<noteq> []" "get_anomalies [earlier_a] \<noteq> []"
    by (simp_all add: anoms_nan anoms_c)
  have "isnan (corrected_distance earlier_nan)" by (simp add: earlier_nan_def)
  then have "\<exists>a \<in> set (get_anomalies [later_a]) \<union> set (get_anomalies [earlier_nan]).
      isnan (corrected_distance a)" by (simp add: anoms_nan)
  from match_anomalies_nan_distance[OF nl(1) ne(1) this]
  show "match_anomalies query_ball_point linear_sum_assignment [later_a] [earlier_nan] 7
     = Inl ValueError" .
  have "isnan (corrected_distance later_nan)" by (simp add: later_nan_def)
  then have "\<exists>a \<in> set (get_anomalies [later_nan]) \<union> set (get_anomalies [earlier_a]).
      isnan (corrected_distance a)" by (simp add: anoms_nan)
  from match_anomalies_nan_distance[OF nl(2) ne(2) this]
  show "match_anomalies query_ball_point linear_sum_assignment [later_nan] [earlier_a] 7
     = Inl ValueError" .
  show "is_anomaly later_dent" by (simp add: later_dent_def ex_rows)
  show "match_anomalies query_ball_point linear_sum_assignment [later_dent] [] 7 =
     Inr \<lparr>matches = [], new_anomalies = [], missing_anomalies = [],
          stats = \<lparr>total_matches = 0,
                    stat_new_anomalies = None, stat_missing_anomalies = None,
                    high_confidence = None, medium_confidence = None,
                    low_confidence = None, avg_similarity = None,
                    avg_confidence = None, avg_depth_growth_rate = None,
                    negative_growth_count = None, high_growth_count = None\<rparr>\<rparr>"
    by (simp add: match_anomalies_def anoms_nan anoms_empty)
qed

text \<open>
  Claim C9, amended: when either run has no row that is flagged as an anomaly and has both
  a depth and a distance reading, \<open>match_anomalies\<close> returns, whatever the other rows and
  the years between the runs, no matches, the rows of that kind of the later run as new,
  those of the earlier run as missing, and statistics that hold \<open>total_matches = 0\<close> only.
\<close>

theorem match_anomalies_empty_side:
  assumes "filter (\<lambda>r. is_anomaly r \<and> \<not> isnan (depth_pct r) \<and> \<not> isnan (log_distance_ft r)) run_later = []
         \<or> filter (\<lambda>r. is_anomaly r \<and> \<not> isnan (depth_pct r) \<and> \<not> isnan (log_distance_ft r)) run_earlier = []"
  shows "match_anomalies query solver run_later run_earlier years =
     Inr \<lparr>matches = [],
          new_anomalies = filter (\<lambda>r. is_anomaly r \<and> \<not> isnan (depth_pct r) \<and> \<not> isnan (log_distance_ft r)) run_later,
          missing_anomalies = filter (\<lambda>r. is_anomaly r \<and> \<not> isnan (depth_pct r) \<and> \<not> isnan (log_distance_ft r)) run_earlier,
          stats = \<lparr>total_matches = 0,
                    stat_new_anomalies = None, stat_missing_anomalies = None,
                    high_confidence = None, medium_confidence = None,
                    low_confidence = None, avg_similarity = None,
                    avg_confidence = None, avg_depth_growth_rate = None,
                    negative_growth_count = None, high_growth_count = None\<rparr>\<rparr>"
  using assms by (auto simp: match_anomalies_def get_anomalies_def Let_def)

theorem match_anomalies_empty_side_witness:
  "filter (\<lambda>r. is_anomaly r \<and> \<not> isnan (depth_pct r) \<and> \<not> isnan (log_distance_ft r)) [later_weld, later_dent] = []
   \<and> match_anomalies query_ball_point linear_sum_assignment [later_weld, later_dent] run_2015 0 =
     Inr \<lparr>matches = [],
          new_anomalies = [],
          missing_anomalies = [earlier_a, earlier_b],
          stats = \<lparr>total_matches = 0,
                    stat_new_anomalies = None, stat_missing_anomalies = None,
                    high_confidence = None, medium_confidence = None,
                    low_confidence = None, avg_similarity = None,
                    avg_confidence = None, avg_depth_growth_rate = None,
                    negative_growth_count = None, high_growth_count = None\<rparr>\<rparr>"
proof -
  have e: "filter (\<lambda>r. is_anomaly r \<and> \<not> isnan (depth_pct r) \<and> \<not> isnan (log_distance_ft r)) [later_weld, later_dent] = []"
    by (simp add: later_weld_def later_dent_def ex_rows)
  have f: "filter (\<lambda>r. is_anomaly r \<and> \<not> isnan (depth_pct r) \<and> \<not> isnan (log_distance_ft r)) run_2015 = [earlier_a, earlier_b]"
    using anoms_2015 by (simp add: get_anomalies_def)
  from e have "filter (\<lambda>r. is_anomaly r \<and> \<not> isnan (depth_pct r) \<and> \<not> isnan (log_distance_ft r)) [later_weld, later_dent] = []
         \<or> filter (\<lambda>r. is_anomaly r \<and> \<not> isnan (depth_pct r) \<and> \<not> isnan (log_distance_ft r)) run_2015 = []" by (rule disjI1)
  from match_anomalies_empty_side[OF this, of query_ball_point linear_sum_assignment 0]
  show ?thesis unfolding e f by simp
qed

text \<open>
  Claim C10: a missing clock position disqualifies a pair. \<open>clock_distance\<close> is 6 as soon
  as one argument is NaN, the candidate loop leaves the cost matrix and the candidate
  counts as they are for such a pair, and every row of the matches output has a clock
  position on both sides, in the match record and in the two anomalies it pairs.
\<close>

theorem missing_clock_disqualifies:
  "(isnan h1 \<or> isnan h2 \<longrightarrow> clock_distance h1 h2 = 6)
   \<and> (isnan (clock_hours (anom_later ! i)) \<or> isnan (clock_hours (anom_earlier ! j)) \<longrightarrow>
        candidate_step anom_later anom_earlier years i j st = st)
   \<and> (kdtree_contract query \<and> lsa_contract solver \<and>
        match_anomalies query solver run_later run_earlier years = Inr res \<longrightarrow>
        (\<forall>rec \<in> set (matches res).
           \<not> isnan (later_clock rec) \<and> \<not> isnan (earlier_clock rec) \<and>
           (\<exists>a_l \<in> set (get_anomalies run_later). \<exists>a_e \<in> set (get_anomalies run_earlier).
              later_row_idx rec = source_row_idx a_l \<and> earlier_row_idx rec = source_row_idx a_e \<and>
              \<not> isnan (clock_hours a_l) \<and> \<not> isnan (clock_hours a_e))))"
proof (intro conjI impI ballI)
  assume "isnan h1 \<or> isnan h2"
  then show "clock_distance h1 h2 = 6" by (rule clock_distance_nan)
next
  assume "isnan (clock_hours (anom_later ! i)) \<or> isnan (clock_hours (anom_earlier ! j))"
  then have "clock_distance (clock_hours (anom_later ! i)) (clock_hours (anom_earlier ! j)) = 6"
    by (rule clock_distance_nan)
  then show "candidate_step anom_later anom_earlier years i j st = st"
    by (cases st) (simp add: candidate_step_def Let_def CLOCK_TOLERANCE_HOURS_def)
next
  fix rec
  assume h: "kdtree_contract query \<and> lsa_contract solver \<and>
        match_anomalies query solver run_later run_earlier years = Inr res"
    and rec: "rec \<in> set (matches res)"
  let ?L = "get_anomalies run_later" and ?E = "get_anomalies run_earlier"
  from h have lsa: "lsa_contract solver"
    and m: "match_anomalies query solver run_later run_earlier years = Inr res" by auto
  from match_anomalies_pairs[OF lsa m] obtain C cnt K where
    rel: "list_all2 (\<lambda>rec (i, j). make_match ?L ?E years C cnt i j = Inr rec) (matches res) K"
    and k3: "\<forall>(i, j) \<in> set K. i < length ?L \<and> j < length ?E \<and>
           passes_gates (?L ! i) (?E ! j)"
    by (auto simp: case_prod_beta)
  from matches_pair[OF rel rec] obtain i j where ij: "(i, j) \<in> set K"
    and mk: "make_match ?L ?E years C cnt i j = Inr rec"
    by auto
  from k3 ij have b: "i < length ?L" "j < length ?E"
    and g: "passes_gates (?L ! i) (?E ! j)" by auto
  from g have "clock_distance (clock_hours (?L ! i)) (clock_hours (?E ! j)) \<noteq> 6"
    by (simp add: passes_gates_def CLOCK_TOLERANCE_HOURS_def)
  with clock_distance_nan
  have nn: "\<not> isnan (clock_hours (?L ! i))" "\<not> isnan (clock_hours (?E ! j))" by blast+
  from make_match_fields[OF mk]
  have f: "later_row_idx rec = source_row_idx (?L ! i)"
    "earlier_row_idx rec = source_row_idx (?E ! j)"
    "later_clock rec = fl_round (clock_hours (?L ! i)) 2"
    "earlier_clock rec = fl_round (clock_hours (?E ! j)) 2"
    by simp_all
  from nn f show "\<not> isnan (later_clock rec)"
    by (cases "clock_hours (?L ! i)") auto
  from nn f show "\<not> isnan (earlier_clock rec)"
    by (cases "clock_hours (?E ! j)") auto
  from b have "?L ! i \<in> set ?L" "?E ! j \<in> set ?E" by simp_all
  with f nn show "\<exists>a_l \<in> set ?L. \<exists>a_e \<in> set ?E.
              later_row_idx rec = source_row_idx a_l \<and> earlier_row_idx rec = source_row_idx a_e \<and>
              \<not> isnan (clock_hours a_l) \<and> \<not> isnan (clock_hours a_e)"
    by blast
qed

theorem missing_clock_disqualifies_witness:
  "clock_distance NaN (Fl 3) = 6
   \<and> candidate_step [later_a\<lparr>clock_hours := NaN\<rparr>] [earlier_a] 7 0 0 ([[1000000]], [0])
       = ([[1000000]], [0])
   \<and> match_anomalies query_ball_point linear_sum_assignment run_2022 run_2015 7
       = Inr result_2015_2022
   \<and> matches result_2015_2022 = [match_aa]
   \<and> \<not> isnan (later_clock match_aa) \<and> \<not> isnan (earlier_clock match_aa)"
proof -
  note t = missing_clock_disqualifies[where ?h1.0 = NaN and ?h2.0 = "Fl 3"
      and anom_later = "[later_a\<lparr>clock_hours := NaN\<rparr>]" and i = 0
      and anom_earlier = "[earlier_a]" and j = 0 and years = 7 and st = "([[1000000]], [0])"
      and query = query_ball_point and solver = linear_sum_assignment
      and run_later = run_2022 and run_earlier = run_2015 and res = result_2015_2022]
  have m: "matches result_2015_2022 = [match_aa]" by (simp add: result_2015_2022_def)
  from t have "clock_distance NaN (Fl 3) = 6" by simp
  moreover from t have
    "candidate_step [later_a\<lparr>clock_hours := NaN\<rparr>] [earlier_a] 7 0 0 ([[1000000]], [0])
       = ([[1000000]], [0])" by simp
  moreover from t kdtree_contract_query_ball_point lsa_contract_linear_sum_assignment
    match_result_ex m
  have "\<not> isnan (later_clock match_aa) \<and> \<not> isnan (earlier_clock match_aa)" by simp
  ultimately show ?thesis using match_result_ex m by blast
qed

section \<open>Multi-run chaining\<close>










section \<open>Alignment\<close>

lemma gw_2007: "get_girth_welds welds_2007 = [weld 2007 20 100 0, weld 2007 10 200 1]"
  by (simp add: get_girth_welds_def welds_2007_def weld_def distance_key_def py_int_def Let_def)

lemma gw_2022: "get_girth_welds welds_2022 = [weld 2022 10 102 0, weld 2022 20 205 1]"
  by (simp add: get_girth_welds_def welds_2022_def weld_def distance_key_def py_int_def Let_def)

lemma match_girth_welds_swapped: "match_girth_welds swapped_runs = Inr swapped_table"
  by (simp add: match_girth_welds_def swapped_runs_def gw_2007 gw_2022 Let_def
      gw_by_year_of_def gw_series_def drop_duplicates_def joint_key_def distance_key_def weld_def py_int_def
      common_joints_of_def dist_column_def loc_def delta_column_def swapped_table_def)

subsection \<open>The alignment table holds the common joints and their distances\<close>

lemma py_int_of_int: "py_int (of_int n) = n"
  by (simp add: py_int_def)

lemma gw_pairs_set:
  "set (map (\<lambda>r. (joint_key r, distance_key r)) (get_girth_welds df)) = weld_readings df"
proof (intro set_eqI iffI)
  fix p
  assume "p \<in> set (map (\<lambda>r. (joint_key r, distance_key r)) (get_girth_welds df))"
  then obtain r where r: "r \<in> set df" "is_girth_weld r" "\<not> isnan (joint_number r)"
    "\<not> isnan (log_distance_ft r)"
    and p: "p = (joint_key (r\<lparr>joint_number := fl_map (\<lambda>x. of_int (py_int x)) (joint_number r)\<rparr>),
                 distance_key (r\<lparr>joint_number := fl_map (\<lambda>x. of_int (py_int x)) (joint_number r)\<rparr>))"
    by (auto simp: get_girth_welds_def Let_def)
  from r obtain j d where jd: "joint_number r = Fl j" "log_distance_ft r = Fl d"
    by (cases "joint_number r"; cases "log_distance_ft r") auto
  with p have "p = (py_int j, d)"
    by (simp add: joint_key_def distance_key_def py_int_of_int)
  with r jd show "p \<in> weld_readings df" unfolding weld_readings_def by blast
next
  fix p
  assume "p \<in> weld_readings df"
  then obtain r j d where r: "r \<in> set df" "is_girth_weld r" "joint_number r = Fl j"
    "log_distance_ft r = Fl d" and p: "p = (py_int j, d)"
    unfolding weld_readings_def by blast
  let ?r = "r\<lparr>joint_number := fl_map (\<lambda>x. of_int (py_int x)) (joint_number r)\<rparr>"
  from r have "?r \<in> set (get_girth_welds df)"
    by (auto simp: get_girth_welds_def Let_def intro!: image_eqI[of _ _ r])
  moreover from r p have "p = (joint_key ?r, distance_key ?r)"
    by (simp add: joint_key_def distance_key_def py_int_of_int)
  ultimately show "p \<in> set (map (\<lambda>r. (joint_key r, distance_key r)) (get_girth_welds df))"
    by (auto intro!: image_eqI[of _ _ ?r])
qed

lemma gw_pairs_sorted:
  "sorted (map snd (map (\<lambda>r. (joint_key r, distance_key r)) (get_girth_welds df)))"
  by (simp add: get_girth_welds_def Let_def comp_def)

lemma drop_duplicates_from_map_of:
  "map_of (drop_duplicates_from seen ps) k = (if k \<in> set seen then None else map_of ps k)"
  by (induction ps arbitrary: seen) auto

lemma drop_duplicates_map_of: "map_of (drop_duplicates ps) = map_of ps"
  by (rule ext) (simp add: drop_duplicates_def drop_duplicates_from_map_of)

text \<open>In a list ordered by value, the first value of a key is the least value of the key.\<close>

lemma map_of_sorted_Min:
  fixes ps :: "('k \<times> 'v::linorder) list"
  assumes "sorted (map snd ps)" and "map_of ps k = Some v"
  shows "v = Min {d. (k, d) \<in> set ps}"
  using assms
proof (induction ps)
  case Nil
  then show ?case by simp
next
  case (Cons p ps)
  have fin: "finite {d. (k, d) \<in> set (p # ps)}"
  proof (rule finite_subset[of _ "snd ` set (p # ps)"])
    show "{d. (k, d) \<in> set (p # ps)} \<subseteq> snd ` set (p # ps)"
    proof
      fix d assume "d \<in> {d. (k, d) \<in> set (p # ps)}"
      then have "(k, d) \<in> set (p # ps)" by simp
      then have "snd (k, d) \<in> snd ` set (p # ps)" by (rule imageI)
      then show "d \<in> snd ` set (p # ps)" by simp
    qed
  qed simp
  show ?case
  proof (cases "fst p = k")
    case True
    with Cons.prems(2) have v: "v = snd p" by (cases p) simp
    have "Min {d. (k, d) \<in> set (p # ps)} = snd p"
    proof (rule Min_eqI[OF fin])
      fix d assume "d \<in> {d. (k, d) \<in> set (p # ps)}"
      then have "(k, d) = p \<or> (k, d) \<in> set ps" by auto
      then have "d = snd p \<or> d \<in> snd ` set ps" by (metis snd_conv imageI)
      then have "d = snd p \<or> d \<in> set (map snd ps)" by simp
      with Cons.prems(1) show "snd p \<le> d" by auto
    next
      from True show "snd p \<in> {d. (k, d) \<in> set (p # ps)}" by (cases p) simp
    qed
    with v show ?thesis by simp
  next
    case False
    with Cons.prems(2) have m: "map_of ps k = Some v" by (cases p) auto
    from Cons.prems(1) have "sorted (map snd ps)" by simp
    from Cons.IH[OF this m] have "v = Min {d. (k, d) \<in> set ps}" .
    moreover from False have "{d. (k, d) \<in> set (p # ps)} = {d. (k, d) \<in> set ps}"
      by (cases p) auto
    ultimately show ?thesis by simp
  qed
qed

lemma gw_series_keys: "fst ` set (gw_series df) = weld_joints df"
proof -
  have "fst ` set (gw_series df) = dom (map_of (gw_series df))"
    by (simp add: dom_map_of_conv_image_fst)
  also have "\<dots> = dom (map_of (map (\<lambda>r. (joint_key r, distance_key r)) (get_girth_welds df)))"
    by (simp add: gw_series_def Let_def drop_duplicates_map_of)
  also have "\<dots> = fst ` weld_readings df"
    unfolding dom_map_of_conv_image_fst gw_pairs_set ..
  finally show ?thesis by (simp add: weld_joints_def)
qed

lemma gw_series_lookup:
  assumes "jn \<in> weld_joints df"
  shows "map_of (gw_series df) jn = Some (weld_distance df jn)"
proof -
  let ?ps = "map (\<lambda>r. (joint_key r, distance_key r)) (get_girth_welds df)"
  have m: "map_of (gw_series df) = map_of ?ps"
    by (simp add: gw_series_def Let_def drop_duplicates_map_of)
  from assms have "jn \<in> dom (map_of ?ps)"
    unfolding dom_map_of_conv_image_fst gw_pairs_set weld_joints_def .
  then obtain v where v: "map_of ?ps jn = Some v" by blast
  from map_of_sorted_Min[OF gw_pairs_sorted v]
  have "v = weld_distance df jn" unfolding gw_pairs_set weld_distance_def .
  with v m show ?thesis by simp
qed

lemma common_joints_of_runs:
  assumes "runs \<noteq> []"
  shows "\<exists>c. common_joints_of (gw_by_year_of runs) = Inr c \<and>
           sorted c \<and> distinct c \<and> set c = common_weld_joints runs"
proof -
  from assms obtain y0 df0 rest where runs: "runs = (y0, df0) # rest"
    by (cases runs) auto
  let ?c = "sort (remdups (filter (\<lambda>jn. \<forall>(y, s) \<in> set (gw_by_year_of rest). jn \<in> fst ` set s)
                             (map fst (gw_series df0))))"
  have c: "common_joints_of (gw_by_year_of runs) = Inr ?c"
    by (simp add: common_joints_of_def runs gw_by_year_of_def)
  have "set ?c = {jn \<in> weld_joints df0. \<forall>(y, df) \<in> set rest. jn \<in> weld_joints df}"
    by (auto simp: gw_by_year_of_def gw_series_keys[symmetric])
  also have "\<dots> = common_weld_joints runs"
    by (auto simp: common_weld_joints_def runs list_all_iff)
  finally have "set ?c = common_weld_joints runs" .
  with c show ?thesis by auto
qed

lemma collect_map:
  "\<forall>x \<in> set xs. f x = Inr (g x) \<Longrightarrow> collect f xs = Inr (map g xs)"
  by (induction xs) simp_all

lemma map_of_map_key:
  "y \<in> set ys \<Longrightarrow> map_of (map (\<lambda>y. (y, h y)) ys) y = Some (h y)"
  by (induction ys) auto

lemma gw_by_year_lookup:
  assumes "distinct (map fst runs)" and "(year, df) \<in> set runs"
  shows "map_of (gw_by_year_of runs) year = Some (gw_series df)"
proof -
  from assms have "map_of runs year = Some df" by (rule map_of_is_SomeI)
  then show ?thesis
    by (simp add: gw_by_year_of_def map_of_map)
qed

text \<open>
  With a common joint, \<open>match_girth_welds\<close> returns a table: its joint column lists the
  common joints in increasing order, and the distance column of each year holds, joint by
  joint, the distance of the joint in that year's run, in the order of the joints and not
  of the distances.
\<close>

lemma match_girth_welds_table:
  assumes "distinct (map fst runs)" and "common_weld_joints runs \<noteq> {}" and "runs \<noteq> []"
  shows "\<exists>gw. match_girth_welds runs = Inr gw \<and>
           sorted (joint_number_col gw) \<and> distinct (joint_number_col gw) \<and>
           set (joint_number_col gw) = common_weld_joints runs \<and>
           (\<forall>(year, df) \<in> set runs.
              map_of (dist_cols gw) year
                = Some (map (weld_distance df) (joint_number_col gw)))"
proof -
  let ?g = "gw_by_year_of runs"
  let ?years = "sort (map fst ?g)"
  from common_joints_of_runs[OF assms(3)] obtain c where
    c: "common_joints_of ?g = Inr c" and sd: "sorted c" "distinct c"
    and sc: "set c = common_weld_joints runs" by blast
  from sc assms(2) have ne: "c \<noteq> []" by auto
  define df_of where "df_of y = the (map_of runs y)" for y
  have df_of: "df_of year = df" if "(year, df) \<in> set runs" for year df
    using map_of_is_SomeI[OF assms(1) that] by (simp add: df_of_def)
  have years: "set ?years = fst ` set runs"
    by (auto simp: gw_by_year_of_def image_iff split: prod.splits) force+
  have col: "dist_column ?g c y = Inr (y, map (weld_distance (df_of y)) c)"
    if "y \<in> set ?years" for y
  proof -
    from that years obtain df where mem: "(y, df) \<in> set runs" by auto
    with df_of have d: "df_of y = df" by simp
    from mem have "set c \<subseteq> weld_joints df"
      unfolding sc common_weld_joints_def list_all_iff by auto
    then have "\<forall>jn \<in> set c. loc (gw_series df) jn = Inr (weld_distance df jn)"
      by (auto simp: loc_def gw_series_lookup)
    from collect_map[OF this] gw_by_year_lookup[OF assms(1) mem] d
    show ?thesis by (simp add: dist_column_def)
  qed
  let ?cols = "map (\<lambda>y. (y, map (weld_distance (df_of y)) c)) ?years"
  from col have cols: "collect (dist_column ?g c) ?years = Inr ?cols"
    by (intro collect_map) simp
  have look: "map_of ?cols y = Some (map (weld_distance (df_of y)) c)"
    if "y \<in> set ?years" for y
    using that by (rule map_of_map_key)
  let ?delta = "\<lambda>p. ((fst p, snd p),
      map2 (\<lambda>c p. c - p) (map (weld_distance (df_of (snd p))) c)
                            (map (weld_distance (df_of (fst p))) c))"
  have "\<forall>p \<in> set (zip ?years (tl ?years)). delta_column ?cols p = Inr (?delta p)"
  proof
    fix p assume p: "p \<in> set (zip ?years (tl ?years))"
    obtain yp yc where pc: "p = (yp, yc)" by (cases p)
    from p pc have "yp \<in> set ?years" by (auto dest: set_zip_leftD)
    moreover from p pc have "yc \<in> set (tl ?years)" by (auto dest: set_zip_rightD)
    then have "yc \<in> set ?years" by (rule list.set_sel(2)[rotated]) (use p in auto)
    ultimately show "delta_column ?cols p = Inr (?delta p)"
      using look pc by (simp add: delta_column_def)
  qed
  from collect_map[OF this]
  have deltas: "collect (delta_column ?cols) (zip ?years (tl ?years))
      = Inr (map ?delta (zip ?years (tl ?years)))" .
  let ?gw = "\<lparr>joint_number_col = c, dist_cols = ?cols,
              delta_cols = map ?delta (zip ?years (tl ?years))\<rparr>"
  have "match_girth_welds runs = Inr ?gw"
    using c cols deltas ne by (simp add: match_girth_welds_def Let_def)
  moreover have "\<forall>(year, df) \<in> set runs.
      map_of (dist_cols ?gw) year = Some (map (weld_distance df) (joint_number_col ?gw))"
  proof (clarify)
    fix year df assume mem: "(year, df) \<in> set runs"
    then have "year \<in> set ?years" unfolding years by (force simp: image_iff)
    from look[OF this] df_of[OF mem]
    show "map_of (dist_cols ?gw) year = Some (map (weld_distance df) (joint_number_col ?gw))"
      by simp
  qed
  ultimately show ?thesis using sd sc by (intro exI[of _ ?gw]) simp
qed

lemma interp1d_contract_linear: "interp1d_contract interp1d_linear"
  by (simp add: interp1d_contract_def interp1d_linear_def)

text \<open>
  Runs without a common joint: the table is built from no records and has no column, so
  with two or more runs the first delta raises \<open>KeyError\<close>.
\<close>

lemma collect_error:
  "collect f xs = Inl e \<Longrightarrow> \<exists>x \<in> set xs. f x = Inl e"
  by (induction xs) (auto split: sum.splits)

lemma match_girth_welds_no_common_joints:
  assumes "2 \<le> length runs" and "common_joints_of (gw_by_year_of runs) = Inr []"
  shows "match_girth_welds runs = Inl KeyError"
proof -
  let ?g = "gw_by_year_of runs"
  let ?years = "sort (map fst ?g)"
  have len: "2 \<le> length ?years" using assms(1) by (simp add: gw_by_year_of_def)
  then obtain y1 y2 ys where ys: "?years = y1 # y2 # ys"
    by (cases ?years; cases "tl ?years") auto
  have d: "collect (delta_column []) (zip ?years (tl ?years)) = Inl KeyError"
    unfolding ys by (simp add: delta_column_def)
  show ?thesis
  proof (cases "collect (dist_column ?g []) ?years")
    case (Inl e)
    from collect_error[OF Inl] have "e = KeyError"
      by (auto simp: dist_column_def split: option.splits)
    with Inl assms(2) show ?thesis by (simp add: match_girth_welds_def Let_def)
  next
    case (Inr cols)
    with assms(2) d show ?thesis by (simp add: match_girth_welds_def Let_def)
  qed
qed


lemma match_girth_welds_disjoint:
  assumes "2 \<le> length runs" and "common_weld_joints runs = {}"
  shows "match_girth_welds runs = Inl KeyError"
proof -
  from assms(1) have "runs \<noteq> []" by auto
  from common_joints_of_runs[OF this] assms(2)
  have "common_joints_of (gw_by_year_of runs) = Inr []" by auto
  with assms(1) show ?thesis by (rule match_girth_welds_no_common_joints)
qed

lemma gw_single:
  "get_girth_welds welds_2007_single = [weld 2007 10 100 0, weld 2007 30 300 1]"
  by (simp add: get_girth_welds_def welds_2007_single_def weld_def distance_key_def
      py_int_def Let_def)

lemma match_girth_welds_single: "match_girth_welds single_runs = Inr single_table"
  by (simp add: match_girth_welds_def single_runs_def gw_single gw_2022 Let_def
      gw_by_year_of_def gw_series_def drop_duplicates_def joint_key_def distance_key_def
      weld_def py_int_def common_joints_of_def dist_column_def loc_def delta_column_def
      single_table_def)

text \<open>
  Claim C4, as stated: alignment fails with \<open>insufficient_anchors\<close> whenever the runs share
  fewer than two joints, and with \<open>non_monotone_anchors\<close> whenever the anchors' source-year
  distances are not strictly increasing in joint-number order. The aligner has neither
  check. For the runs whose joints 10 and 20 lie at 200 ft and 100 ft in 2007, the table is
  built and the corrector is constructed over the abscissas 200, 100 as they are. For the
  runs that share the joint 10 only, the table has one row and the corrector is constructed
  over the single anchor.
\<close>

theorem anchors_not_validated_counterexample:
  "match_girth_welds swapped_runs = Inr swapped_table
   \<and> map_of (dist_cols swapped_table) 2007 = Some [200, 100]
   \<and> \<not> sorted_wrt (<) [200, 100 :: real]
   \<and> build_distance_corrector interp1d_linear swapped_table 2007 2022
       = Inr \<lparr>anchor_xs = [200, 100], anchor_ys = [102, 205]\<rparr>
   \<and> match_girth_welds single_runs = Inr single_table
   \<and> joint_number_col single_table = [10]
   \<and> build_distance_corrector interp1d_linear single_table 2007 2022
       = Inr \<lparr>anchor_xs = [100], anchor_ys = [102]\<rparr>"
  by (simp add: match_girth_welds_swapped match_girth_welds_single swapped_table_def
      single_table_def build_distance_corrector_def interp1d_linear_def)

text \<open>
  Claim C4, amended: the aligner does not validate the anchors. When two or more runs share
  no girth-weld joint number, \<open>match_girth_welds\<close> fails, with a \<open>KeyError\<close>. When the runs
  share one or more joint numbers, it returns the table of the common joints in increasing
  joint-number order, each year's column holding the distance of each joint in that year,
  and \<open>build_distance_corrector\<close> returns, for any two years of the input, the interpolator
  over the table's two distance columns as they stand, whatever the number of anchors and
  the order of the source-year distances: it neither sorts them nor fails.
\<close>

theorem alignment_no_validation:
  assumes "interp1d_contract interp" and "distinct (map fst runs)"
  shows "(2 \<le> length runs \<and> common_weld_joints runs = {} \<longrightarrow>
            match_girth_welds runs = Inl KeyError)
     \<and> (runs \<noteq> [] \<and> common_weld_joints runs \<noteq> {} \<longrightarrow>
          (\<exists>gw. match_girth_welds runs = Inr gw \<and>
             sorted (joint_number_col gw) \<and> distinct (joint_number_col gw) \<and>
             set (joint_number_col gw) = common_weld_joints runs \<and>
             (\<forall>(year, df) \<in> set runs.
                map_of (dist_cols gw) year
                  = Some (map (weld_distance df) (joint_number_col gw))) \<and>
             (\<forall>(source_year, src_df) \<in> set runs. \<forall>(reference_year, ref_df) \<in> set runs.
                build_distance_corrector interp gw source_year reference_year
                  = Inr \<lparr>anchor_xs = map (weld_distance src_df) (joint_number_col gw),
                         anchor_ys = map (weld_distance ref_df) (joint_number_col gw)\<rparr>)))"
proof (intro conjI impI)
  assume "2 \<le> length runs \<and> common_weld_joints runs = {}"
  then show "match_girth_welds runs = Inl KeyError"
    using match_girth_welds_disjoint by blast
next
  assume h: "runs \<noteq> [] \<and> common_weld_joints runs \<noteq> {}"
  from match_girth_welds_table[OF assms(2)] h obtain gw where
    gw: "match_girth_welds runs = Inr gw"
    and sd: "sorted (joint_number_col gw)" "distinct (joint_number_col gw)"
    and sc: "set (joint_number_col gw) = common_weld_joints runs"
    and cols: "\<forall>(year, df) \<in> set runs.
                map_of (dist_cols gw) year
                  = Some (map (weld_distance df) (joint_number_col gw))"
    by blast
  from sc h have "joint_number_col gw \<noteq> []" by auto
  then have len: "1 \<le> length (joint_number_col gw)" by (cases "joint_number_col gw") auto
  have "\<forall>(source_year, src_df) \<in> set runs. \<forall>(reference_year, ref_df) \<in> set runs.
                build_distance_corrector interp gw source_year reference_year
                  = Inr \<lparr>anchor_xs = map (weld_distance src_df) (joint_number_col gw),
                         anchor_ys = map (weld_distance ref_df) (joint_number_col gw)\<rparr>"
  proof (clarify)
    fix ys dfs yr dfr
    assume "(ys, dfs) \<in> set runs" "(yr, dfr) \<in> set runs"
    with cols have
      "map_of (dist_cols gw) ys = Some (map (weld_distance dfs) (joint_number_col gw))"
      "map_of (dist_cols gw) yr = Some (map (weld_distance dfr) (joint_number_col gw))"
      by auto
    moreover from assms(1) len have
      "interp (map (weld_distance dfs) (joint_number_col gw))
              (map (weld_distance dfr) (joint_number_col gw))
         = Inr \<lparr>anchor_xs = map (weld_distance dfs) (joint_number_col gw),
                anchor_ys = map (weld_distance dfr) (joint_number_col gw)\<rparr>"
      unfolding interp1d_contract_def by simp
    ultimately show "build_distance_corrector interp gw ys yr
        = Inr \<lparr>anchor_xs = map (weld_distance dfs) (joint_number_col gw),
               anchor_ys = map (weld_distance dfr) (joint_number_col gw)\<rparr>"
      by (simp add: build_distance_corrector_def)
  qed
  with gw sd sc cols
  show "\<exists>gw. match_girth_welds runs = Inr gw \<and>
             sorted (joint_number_col gw) \<and> distinct (joint_number_col gw) \<and>
             set (joint_number_col gw) = common_weld_joints runs \<and>
             (\<forall>(year, df) \<in> set runs.
                map_of (dist_cols gw) year
                  = Some (map (weld_distance df) (joint_number_col gw))) \<and>
             (\<forall>(source_year, src_df) \<in> set runs. \<forall>(reference_year, ref_df) \<in> set runs.
                build_distance_corrector interp gw source_year reference_year
                  = Inr \<lparr>anchor_xs = map (weld_distance src_df) (joint_number_col gw),
                         anchor_ys = map (weld_distance ref_df) (joint_number_col gw)\<rparr>)"
    by blast
qed

text \<open>
  The theorem at the three pairs of runs above. For the runs with the swapped labels it
  gives the table with the joints 10 and 20 and the 2007 distances 200 and 100, in that
  order; for the runs that share the joint 10 only, the corrector over the single anchor;
  for the runs without a common joint, the \<open>KeyError\<close>.
\<close>

theorem alignment_no_validation_witness:
  "common_weld_joints swapped_runs = {10, 20}
   \<and> map (weld_distance welds_2007) [10, 20] = [200, 100]
   \<and> map (weld_distance welds_2022) [10, 20] = [102, 205]
   \<and> build_distance_corrector interp1d_linear swapped_table 2007 2022
       = Inr \<lparr>anchor_xs = map (weld_distance welds_2007) [10, 20],
              anchor_ys = map (weld_distance welds_2022) [10, 20]\<rparr>
   \<and> common_weld_joints single_runs = {10}
   \<and> build_distance_corrector interp1d_linear single_table 2007 2022
       = Inr \<lparr>anchor_xs = [weld_distance welds_2007_single 10],
              anchor_ys = [weld_distance welds_2022 10]\<rparr>
   \<and> common_weld_joints disjoint_runs = {}
   \<and> match_girth_welds disjoint_runs = Inl KeyError"
proof -
  note t = alignment_no_validation[OF interp1d_contract_linear]
  have d: "distinct (map fst swapped_runs)" "distinct (map fst single_runs)"
    "distinct (map fst disjoint_runs)"
    by (simp_all add: swapped_runs_def single_runs_def disjoint_runs_def)
  have r10: "(10, 102) \<in> weld_readings welds_2022"
    unfolding weld_readings_def
    by (rule CollectI, rule exI[of _ "weld 2022 10 102 0"], rule exI[of _ 10],
        rule exI[of _ 102]) (simp add: welds_2022_def weld_def py_int_def)
  have s10: "(10, 200) \<in> weld_readings welds_2007"
    unfolding weld_readings_def
    by (rule CollectI, rule exI[of _ "weld 2007 10 200 1"], rule exI[of _ 10],
        rule exI[of _ 200]) (simp add: welds_2007_def weld_def py_int_def)
  have q10: "(10, 100) \<in> weld_readings welds_2007_single"
    unfolding weld_readings_def
    by (rule CollectI, rule exI[of _ "weld 2007 10 100 0"], rule exI[of _ 10],
        rule exI[of _ 100]) (simp add: welds_2007_single_def weld_def py_int_def)
  from r10 have j22: "10 \<in> weld_joints welds_2022"
    unfolding weld_joints_def by (force simp: image_iff)
  from s10 have j07: "10 \<in> weld_joints welds_2007"
    unfolding weld_joints_def by (force simp: image_iff)
  from q10 have j07s: "10 \<in> weld_joints welds_2007_single"
    unfolding weld_joints_def by (force simp: image_iff)
  have "10 \<in> common_weld_joints swapped_runs"
    using j22 j07 by (simp add: common_weld_joints_def swapped_runs_def)
  then have ne1: "swapped_runs \<noteq> [] \<and> common_weld_joints swapped_runs \<noteq> {}"
    by (auto simp: swapped_runs_def)
  from t[OF d(1)] ne1 match_girth_welds_swapped
  have a: "set (joint_number_col swapped_table) = common_weld_joints swapped_runs"
    and b: "\<forall>(year, df) \<in> set swapped_runs.
                map_of (dist_cols swapped_table) year
                  = Some (map (weld_distance df) (joint_number_col swapped_table))"
    and c: "\<forall>(source_year, src_df) \<in> set swapped_runs.
            \<forall>(reference_year, ref_df) \<in> set swapped_runs.
                build_distance_corrector interp1d_linear swapped_table source_year reference_year
                  = Inr \<lparr>anchor_xs = map (weld_distance src_df) (joint_number_col swapped_table),
                         anchor_ys = map (weld_distance ref_df) (joint_number_col swapped_table)\<rparr>"
    by auto
  from a have c1: "common_weld_joints swapped_runs = {10, 20}"
    by (simp add: swapped_table_def)
  from b have c2: "map (weld_distance welds_2007) [10, 20] = [200, 100]"
    and c3: "map (weld_distance welds_2022) [10, 20] = [102, 205]"
    by (simp_all add: swapped_runs_def swapped_table_def)
  from c have c4: "build_distance_corrector interp1d_linear swapped_table 2007 2022
       = Inr \<lparr>anchor_xs = map (weld_distance welds_2007) [10, 20],
              anchor_ys = map (weld_distance welds_2022) [10, 20]\<rparr>"
    by (simp add: swapped_runs_def swapped_table_def)
  have "10 \<in> common_weld_joints single_runs"
    using j22 j07s by (simp add: common_weld_joints_def single_runs_def)
  then have ne2: "single_runs \<noteq> [] \<and> common_weld_joints single_runs \<noteq> {}"
    by (auto simp: single_runs_def)
  from t[OF d(2)] ne2 match_girth_welds_single
  have a2: "set (joint_number_col single_table) = common_weld_joints single_runs"
    and e2: "\<forall>(source_year, src_df) \<in> set single_runs.
            \<forall>(reference_year, ref_df) \<in> set single_runs.
                build_distance_corrector interp1d_linear single_table source_year reference_year
                  = Inr \<lparr>anchor_xs = map (weld_distance src_df) (joint_number_col single_table),
                         anchor_ys = map (weld_distance ref_df) (joint_number_col single_table)\<rparr>"
    by auto
  from a2 have c5: "common_weld_joints single_runs = {10}"
    by (simp add: single_table_def)
  from e2 have c6: "build_distance_corrector interp1d_linear single_table 2007 2022
       = Inr \<lparr>anchor_xs = [weld_distance welds_2007_single 10],
              anchor_ys = [weld_distance welds_2022 10]\<rparr>"
    by (simp add: single_runs_def single_table_def)
  have c7: "common_weld_joints disjoint_runs = {}"
  proof -
    have "jn \<notin> common_weld_joints disjoint_runs" for jn
    proof
      assume "jn \<in> common_weld_joints disjoint_runs"
      then have "jn \<in> weld_joints welds_2007_other"
        and "jn \<in> weld_joints welds_2022"
        by (simp_all add: common_weld_joints_def disjoint_runs_def)
      then have "jn = 30 \<or> jn = 40" and "jn = 10 \<or> jn = 20"
        by (auto simp: weld_joints_def weld_readings_def welds_2022_def welds_2007_other_def
            weld_def py_int_def)
      then show False by auto
    qed
    then show ?thesis by blast
  qed
  have "2 \<le> length disjoint_runs" by (simp add: disjoint_runs_def)
  with t[OF d(3)] c7 have c8: "match_girth_welds disjoint_runs = Inl KeyError" by blast
  from c1 c2 c3 c4 c5 c6 c7 c8 show ?thesis by (intro conjI)
qed

end
